theory Spec2Isabelle
  imports Main "HOL-Library.Word" "HOL-Library.Sublist"
begin

section \<open>Node metrics collection of the metrics agent (kubernetes/nodecollection.go)\<close>

text \<open>
  The development embeds the functions of \<^verbatim>\<open>kubernetes/nodecollection.go\<close>.
  Everything the file does beyond computing a value is explicit:
  \<^item> the calls that leave the process (listing the nodes, probing an endpoint, fetching an
    endpoint) are appended to a list of calls, and their answers are read from an
    environment whose answer may depend on all the calls made before;
  \<^item> the two endpoint masks are Go maps, that is references: they live in a store indexed
    by address, and a configuration holds the two addresses;
  \<^item> the log lines are appended to a list of log entries;
  \<^item> a Go \<^verbatim>\<open>error\<close> is a value, \<^verbatim>\<open>nil\<close> is \<open>None\<close>.
\<close>

subsection \<open>Errors\<close>

text \<open>
  An error carries its text (\<^verbatim>\<open>err.Error()\<close>) and whether the API machinery classifies it
  as a conflict (\<^verbatim>\<open>errors.IsConflict\<close>), which is all \<^verbatim>\<open>retry.RetryOnConflict\<close> looks at.
  \<^verbatim>\<open>fmt.Errorf\<close> and \<^verbatim>\<open>errors.New\<close> build plain errors.
\<close>

datatype error = MkError (IsConflict: bool) (message: string)

definition Errorf :: "string \<Rightarrow> error" where
  "Errorf s = MkError False s"

subsection \<open>Kubernetes nodes (the fields of \<^verbatim>\<open>v1.Node\<close> the file reads)\<close>

datatype NodeCondition = NodeCondition (condType: string) (condStatus: string)

datatype NodeAddr = NodeAddr (addrType: string) (Address: string)

record NodeStatus =
  Conditions :: "NodeCondition list"
  Addresses :: "NodeAddr list"
  KubeletPort :: "32 word"

record Node =
  Name :: string
  Labels :: "string \<rightharpoonup> string"
  ProviderID :: string
  Status :: NodeStatus

text \<open>The string constants of \<^verbatim>\<open>k8s.io/api/core/v1\<close> and \<^verbatim>\<open>net/http\<close> the file names.\<close>

definition NodeReady :: string where
  "NodeReady = ''Ready''"

definition ConditionTrue :: string where
  "ConditionTrue = ''True''"

definition NodeInternalIP :: string where
  "NodeInternalIP = ''InternalIP''"

definition MethodGet :: string where
  "MethodGet = ''GET''"

definition MethodPost :: string where
  "MethodPost = ''POST''"

subsection \<open>Endpoints and endpoint masks\<close>

type_synonym Endpoint = "8 word"

definition NodeStatsSummaryEndpoint :: Endpoint where
  "NodeStatsSummaryEndpoint = 0"

definition NodeContainerEndpoint :: Endpoint where
  "NodeContainerEndpoint = 1"

definition NodeCadvisorEndpoint :: Endpoint where
  "NodeCadvisorEndpoint = 2"

text \<open>
  \<^verbatim>\<open>type EndpointMask map[Endpoint]struct{}\<close>: the keys are the available endpoints. A
  mask value is a reference to a map; the model writes it as the address of the map in
  the store \<open>masks\<close> of the world. The masks of a configuration are made where the
  configuration is built, outside this file; the model takes them as addresses of
  existing maps (a nil map is not represented).
\<close>

type_synonym EndpointMask = nat

subsection \<open>Clients, external calls and the world\<close>

text \<open>An \<^verbatim>\<open>http.Client\<close>: its timeout in seconds and whether it skips TLS verification.\<close>

record http_client =
  Timeout :: nat
  InsecureSkipVerify :: bool

text \<open>
  \<^verbatim>\<open>raw.Client\<close> is declared in the package \<^verbatim>\<open>retrieval/raw\<close>; the file builds one with
  \<^verbatim>\<open>raw.NewClient\<close> and writes the zero value \<^verbatim>\<open>raw.Client{}\<close>. The model keeps the
  arguments of the constructor.
\<close>

datatype raw_client =
  NewClient http_client bool string nat
  | ZeroClient

text \<open>
  The calls that leave the process:
  \<^item> \<open>ListCall cs\<close>: \<^verbatim>\<open>clientSet.CoreV1().Nodes().List(metav1.ListOptions{})\<close> on client set \<open>cs\<close>;
  \<^item> \<open>ProbeCall client url method token\<close>:
    \<^verbatim>\<open>util.TestHTTPConnection(client, url, method, token, 0, false)\<close>;
  \<^item> \<open>FetchCall c method source workDir url body\<close>:
    \<^verbatim>\<open>c.GetRawEndPoint(method, source, workDir, url, body, true)\<close>.
\<close>

datatype call =
  ListCall nat
  | ProbeCall http_client string string string
  | FetchCall raw_client string string string string "string option"

datatype log_entry =
  NodeNotReady string "NodeCondition option"
  | SomeNodesNotReady
  | FetchingFrom Endpoint
  | AvailabilityIs Endpoint bool
  | FargateNodeFound string
  | ForceKubeProxySet
  | FargateInCluster

record world =
  masks :: "EndpointMask \<Rightarrow> Endpoint set"
  calls :: "call list"
  logs :: "log_entry list"

text \<open>
  The environment answers a call from the calls made before it and the call itself:
  the node list or an error, the pair of reachability and error of a probe, the error of
  a fetch (the bytes a fetch returns are dropped by every caller in the file).
\<close>

record env =
  list_nodes :: "call list \<Rightarrow> call \<Rightarrow> error + Node list"
  test_conn :: "call list \<Rightarrow> call \<Rightarrow> bool \<times> error option"
  get_raw :: "call list \<Rightarrow> call \<Rightarrow> error option"

definition issue :: "call \<Rightarrow> world \<Rightarrow> world" where
  "issue c w = w\<lparr>calls := calls w @ [c]\<rparr>"

definition logf :: "log_entry \<Rightarrow> world \<Rightarrow> world" where
  "logf l w = w\<lparr>logs := logs w @ [l]\<rparr>"

definition List_nodes :: "env \<Rightarrow> nat \<Rightarrow> world \<Rightarrow> (error + Node list) \<times> world" where
  "List_nodes e cs w = (list_nodes e (calls w) (ListCall cs), issue (ListCall cs) w)"

definition TestHTTPConnection ::
  "env \<Rightarrow> http_client \<Rightarrow> string \<Rightarrow> string \<Rightarrow> string \<Rightarrow> world \<Rightarrow> (bool \<times> error option) \<times> world" where
  "TestHTTPConnection e client url method token w =
     (test_conn e (calls w) (ProbeCall client url method token),
      issue (ProbeCall client url method token) w)"

definition GetRawEndPoint ::
  "env \<Rightarrow> raw_client \<Rightarrow> string \<Rightarrow> string \<Rightarrow> string \<Rightarrow> string \<Rightarrow> string option \<Rightarrow> world
     \<Rightarrow> error option \<times> world" where
  "GetRawEndPoint e c method source workDir url body w =
     (get_raw e (calls w) (FetchCall c method source workDir url body),
      issue (FetchCall c method source workDir url body) w)"

subsection \<open>The mask operations\<close>

definition SetAvailable :: "EndpointMask \<Rightarrow> Endpoint \<Rightarrow> bool \<Rightarrow> world \<Rightarrow> world" where
  "SetAvailable m endpoint available w =
     (if available then w\<lparr>masks := (masks w)(m := insert endpoint (masks w m))\<rparr>
      else w\<lparr>masks := (masks w)(m := masks w m - {endpoint})\<rparr>)"

definition Available :: "EndpointMask \<Rightarrow> Endpoint \<Rightarrow> world \<Rightarrow> bool" where
  "Available m endpoint w = (endpoint \<in> masks w m)"

subsection \<open>The node directory\<close>

record ClientsetNodeSource =
  clientSet :: nat

definition NewClientsetNodeSource :: "nat \<Rightarrow> ClientsetNodeSource" where
  "NewClientsetNodeSource cs = \<lparr>clientSet = cs\<rparr>"

fun getNodeCondition_from :: "NodeCondition list \<Rightarrow> string \<Rightarrow> int \<Rightarrow> int \<times> NodeCondition option" where
  "getNodeCondition_from [] conditionType i = (- 1, None)"
| "getNodeCondition_from (c # cs) conditionType i =
     (if condType c = conditionType then (i, Some c)
      else getNodeCondition_from cs conditionType (i + 1))"

definition getNodeCondition :: "NodeStatus option \<Rightarrow> string \<Rightarrow> int \<times> NodeCondition option" where
  "getNodeCondition status conditionType =
     (case status of
        None \<Rightarrow> (- 1, None)
      | Some s \<Rightarrow> getNodeCondition_from (Conditions s) conditionType 0)"

text \<open>
  The loop of \<^verbatim>\<open>GetReadyNodes\<close> over \<^verbatim>\<open>allNodes.Items\<close>, with \<^verbatim>\<open>readyNodes\<close> as
  accumulator. The test is the source's: the index is not negative and the type of the
  condition found is \<^verbatim>\<open>v1.NodeReady\<close>. The source dereferences \<^verbatim>\<open>nc\<close> only after
  \<^verbatim>\<open>i >= 0\<close>, where it is not nil.
\<close>

fun GetReadyNodes_loop :: "Node list \<Rightarrow> Node list \<Rightarrow> world \<Rightarrow> Node list \<times> world" where
  "GetReadyNodes_loop [] readyNodes w = (readyNodes, w)"
| "GetReadyNodes_loop (n # items) readyNodes w =
     (case getNodeCondition (Some (Status n)) NodeReady of
        (i, nc) \<Rightarrow>
          if i \<ge> 0 \<and> (case nc of Some c \<Rightarrow> condType c = NodeReady | None \<Rightarrow> False)
          then GetReadyNodes_loop items (readyNodes @ [n]) w
          else GetReadyNodes_loop items readyNodes (logf (NodeNotReady (Name n) nc) w))"

definition GetReadyNodes :: "env \<Rightarrow> ClientsetNodeSource \<Rightarrow> world \<Rightarrow> (error + Node list) \<times> world" where
  "GetReadyNodes e cns w =
     (case List_nodes e (clientSet cns) w of
        (Inl err, w1) \<Rightarrow> (Inl err, w1)
      | (Inr items, w1) \<Rightarrow>
          (case GetReadyNodes_loop items [] w1 of
             (readyNodes, w2) \<Rightarrow>
               if length readyNodes = 0
               then (Inl (Errorf ''there were 0 nodes in a ready state''), w2)
               else if length readyNodes \<noteq> length items
               then (Inr readyNodes, logf SomeNodesNotReady w2)
               else (Inr readyNodes, w2)))"

fun NodeAddress_from :: "NodeAddr list \<Rightarrow> Node \<Rightarrow> error + (string \<times> 32 word)" where
  "NodeAddress_from [] node =
     Inl (Errorf (''Could not find internal IP address for node '' @ Name node @ '' ''))"
| "NodeAddress_from (addr # addrs) node =
     (if addrType addr = NodeInternalIP
      then Inr (Address addr, KubeletPort (Status node))
      else NodeAddress_from addrs node)"

definition NodeAddress :: "ClientsetNodeSource \<Rightarrow> Node \<Rightarrow> error + (string \<times> 32 word)" where
  "NodeAddress cns node = NodeAddress_from (Addresses (Status node)) node"

subsection \<open>Formatting\<close>

text \<open>Decimal text of an integer, as \<^verbatim>\<open>%v\<close> prints an \<^verbatim>\<open>int64\<close>.\<close>

definition digit_char :: "nat \<Rightarrow> char" where
  "digit_char d = ''0123456789'' ! d"

fun fmt_nat :: "nat \<Rightarrow> string" where
  "fmt_nat n = (if n < 10 then [digit_char n] else fmt_nat (n div 10) @ [digit_char (n mod 10)])"

declare fmt_nat.simps [simp del]

definition fmt_int :: "int \<Rightarrow> string" where
  "fmt_int i = (if i < 0 then ''-'' @ fmt_nat (nat (- i)) else fmt_nat (nat i))"

subsection \<open>Endpoint address builders and source names\<close>

record proxyAPI =
  clusterHostURL :: string
  nodeName :: string

definition proxyAPI_statsSummary :: "proxyAPI \<Rightarrow> string" where
  "proxyAPI_statsSummary p =
     clusterHostURL p @ ''/api/v1/nodes/'' @ nodeName p @ ''/proxy/stats/summary''"

definition proxyAPI_statsContainer :: "proxyAPI \<Rightarrow> string" where
  "proxyAPI_statsContainer p =
     clusterHostURL p @ ''/api/v1/nodes/'' @ nodeName p @ ''/proxy/stats/container/''"

definition proxyAPI_mCAdvisor :: "proxyAPI \<Rightarrow> string" where
  "proxyAPI_mCAdvisor p =
     clusterHostURL p @ ''/api/v1/nodes/'' @ nodeName p @ ''/proxy/metrics/cadvisor''"

definition proxyEndpoints :: "string \<Rightarrow> string \<Rightarrow> proxyAPI" where
  "proxyEndpoints url name = \<lparr>clusterHostURL = url, nodeName = name\<rparr>"

record directNode =
  ip :: string
  port :: "64 word"

definition directNode_statsSummary :: "directNode \<Rightarrow> string" where
  "directNode_statsSummary d = ''https://'' @ ip d @ '':'' @ fmt_int (sint (port d)) @ ''/stats/summary''"

definition directNode_statsContainer :: "directNode \<Rightarrow> string" where
  "directNode_statsContainer d =
     ''https://'' @ ip d @ '':'' @ fmt_int (sint (port d)) @ ''/stats/container/''"

definition directNode_mCAdvisor :: "directNode \<Rightarrow> string" where
  "directNode_mCAdvisor d = ''https://'' @ ip d @ '':'' @ fmt_int (sint (port d)) @ ''/metrics/cadvisor''"

definition directNodeEndpoints :: "string \<Rightarrow> 32 word \<Rightarrow> directNode" where
  "directNodeEndpoints i p = \<lparr>ip = i, port = scast p\<rparr>"

text \<open>The interface \<^verbatim>\<open>nodeAPI\<close> with its two implementations.\<close>

datatype nodeAPI = DirectNode directNode | ProxyAPI proxyAPI

fun statsSummary :: "nodeAPI \<Rightarrow> string" where
  "statsSummary (DirectNode d) = directNode_statsSummary d"
| "statsSummary (ProxyAPI p) = proxyAPI_statsSummary p"

fun statsContainer :: "nodeAPI \<Rightarrow> string" where
  "statsContainer (DirectNode d) = directNode_statsContainer d"
| "statsContainer (ProxyAPI p) = proxyAPI_statsContainer p"

fun mCAdvisor :: "nodeAPI \<Rightarrow> string" where
  "mCAdvisor (DirectNode d) = directNode_mCAdvisor d"
| "mCAdvisor (ProxyAPI p) = proxyAPI_mCAdvisor p"

record sourceName =
  src_prefix :: string
  src_nodeName :: string

definition summary :: "sourceName \<Rightarrow> string" where
  "summary s = src_prefix s @ ''-summary-'' @ src_nodeName s"

definition container :: "sourceName \<Rightarrow> string" where
  "container s = src_prefix s @ ''-container-'' @ src_nodeName s"

definition cadvisorMetrics :: "sourceName \<Rightarrow> string" where
  "cadvisorMetrics s = src_prefix s @ ''-cadvisor_metrics-'' @ src_nodeName s"

subsection \<open>The session configuration\<close>

text \<open>
  \<^verbatim>\<open>KubeAgentConfig\<close> is declared in another file of the package; the record has the
  fields this file reads or writes. The two masks are addresses into the store of masks.
  Modelled from the spec: the retrieval methods \<^verbatim>\<open>direct\<close>, \<^verbatim>\<open>proxy\<close> and
  \<^verbatim>\<open>unreachable\<close> are constants declared outside this file; the spec gives three
  distinct connection modes, written here as three distinct strings.
\<close>

record KubeAgentConfig =
  Clientset :: nat
  BearerToken :: string
  CollectionRetryLimit :: nat
  NodeClient :: raw_client
  InClusterClient :: raw_client
  HTTPClient :: http_client
  ClusterHostURL :: string
  nodeRetrievalMethod :: string
  DirectEndpointMask :: EndpointMask
  ProxyEndpointMask :: EndpointMask
  RetrieveNodeSummaries :: bool
  RetrieveStatsContainer :: bool
  ForceKubeProxy :: bool

definition direct :: string where
  "direct = ''direct''"

definition proxy :: string where
  "proxy = ''proxy''"

definition unreachable :: string where
  "unreachable = ''unreachable''"

subsection \<open>Fetching the endpoints of one node\<close>

record nodeFetchData =
  nd_nodeName :: string
  nd_prefix :: string
  nd_workDir :: string
  nd_ClusterHostURL :: string
  nd_containersRequest :: string

definition retrieveNodeData ::
  "env \<Rightarrow> nodeFetchData \<Rightarrow> raw_client \<Rightarrow> EndpointMask \<Rightarrow> nodeAPI \<Rightarrow> world \<Rightarrow> error option \<times> world" where
  "retrieveNodeData e nd c m api w =
     (let source = \<lparr>src_prefix = nd_prefix nd, src_nodeName = nd_nodeName nd\<rparr> in
      case (if Available m NodeStatsSummaryEndpoint w
            then GetRawEndPoint e c MethodGet (summary source) (nd_workDir nd) (statsSummary api) None
                   (logf (FetchingFrom NodeStatsSummaryEndpoint) w)
            else (None, w)) of
        (Some err, w1) \<Rightarrow> (Some err, w1)
      | (None, w1) \<Rightarrow>
          (case (if Available m NodeCadvisorEndpoint w1
                 then GetRawEndPoint e c MethodGet (cadvisorMetrics source) (nd_workDir nd) (mCAdvisor api) None
                        (logf (FetchingFrom NodeCadvisorEndpoint) w1)
                 else (None, w1)) of
             (Some err, w2) \<Rightarrow> (Some err, w2)
           | (None, w2) \<Rightarrow>
               (case (if Available m NodeContainerEndpoint w2
                      then GetRawEndPoint e c MethodPost (container source) (nd_workDir nd)
                             (statsContainer api) (Some (nd_containersRequest nd))
                             (logf (FetchingFrom NodeContainerEndpoint) w2)
                      else (None, w2)) of
                  (Some err, w3) \<Rightarrow> (Some err, w3)
                | (None, w3) \<Rightarrow> (None, w3))))"

definition directNodeFetch ::
  "env \<Rightarrow> ClientsetNodeSource \<Rightarrow> KubeAgentConfig \<Rightarrow> Node \<Rightarrow> nodeFetchData \<Rightarrow> world
     \<Rightarrow> error option \<times> world" where
  "directNodeFetch e nodeSource config n nd w =
     (case NodeAddress nodeSource n of
        Inl err \<Rightarrow> (Some (Errorf (''problem getting node address: '' @ message err)), w)
      | Inr (i, p) \<Rightarrow>
          retrieveNodeData e nd (NodeClient config) (DirectEndpointMask config)
            (DirectNode (directNodeEndpoints i p)) w)"

definition proxyNodeFetch ::
  "env \<Rightarrow> nodeFetchData \<Rightarrow> KubeAgentConfig \<Rightarrow> world \<Rightarrow> error option \<times> world" where
  "proxyNodeFetch e nd config w =
     retrieveNodeData e nd (InClusterClient config) (ProxyEndpointMask config)
       (ProxyAPI (proxyEndpoints (ClusterHostURL config) (nd_nodeName nd))) w"

subsection \<open>Fargate nodes\<close>

definition isFargateNode :: "Node \<Rightarrow> world \<Rightarrow> bool \<times> world" where
  "isFargateNode n w =
     (let v = (case Labels n ''eks.amazonaws.com/compute-type'' of None \<Rightarrow> [] | Some s \<Rightarrow> s) in
      if v = ''fargate'' then (True, logf (FargateNodeFound (Name n)) w) else (False, w))"

fun allowDirectConnect_loop :: "Node list \<Rightarrow> world \<Rightarrow> bool \<times> world" where
  "allowDirectConnect_loop [] w = (True, w)"
| "allowDirectConnect_loop (n # nodes) w =
     (case isFargateNode n w of
        (True, w1) \<Rightarrow> (False, logf FargateInCluster w1)
      | (False, w1) \<Rightarrow> allowDirectConnect_loop nodes w1)"

definition allowDirectConnect :: "KubeAgentConfig \<Rightarrow> Node list \<Rightarrow> world \<Rightarrow> bool \<times> world" where
  "allowDirectConnect config nodes w =
     (if ForceKubeProxy config then (False, logf ForceKubeProxySet w)
      else allowDirectConnect_loop nodes w)"

subsection \<open>The fetch cycle\<close>

text \<open>
  \<^verbatim>\<open>retry.RetryOnConflict(retry.DefaultBackoff, fn)\<close> of \<^verbatim>\<open>k8s.io/client-go\<close>: \<open>fn\<close> is
  called until it returns no error or an error that is not a conflict, at most
  \<^verbatim>\<open>Steps\<close> times; after that many conflicts the last conflict is returned. The closure
  of \<^verbatim>\<open>downloadNodeData\<close> assigns \<^verbatim>\<open>nodes\<close> and returns the error, so the model returns
  either the error or the nodes. \<^verbatim>\<open>retry.DefaultBackoff\<close> has four steps.
\<close>

fun RetryOnConflict ::
  "nat \<Rightarrow> (world \<Rightarrow> (error + Node list) \<times> world) \<Rightarrow> error option \<Rightarrow> world
     \<Rightarrow> (error + Node list) \<times> world" where
  "RetryOnConflict 0 fn lastConflictErr w =
     ((case lastConflictErr of None \<Rightarrow> Inr [] | Some err \<Rightarrow> Inl err), w)"
| "RetryOnConflict (Suc steps) fn lastConflictErr w =
     (case fn w of
        (Inr nodes, w1) \<Rightarrow> (Inr nodes, w1)
      | (Inl err, w1) \<Rightarrow>
          if IsConflict err then RetryOnConflict steps fn (Some err) w1 else (Inl err, w1))"

definition DefaultBackoff_Steps :: nat where
  "DefaultBackoff_Steps = 4"

text \<open>
  \<^verbatim>\<open>json.Marshal\<close> of the request with \<^verbatim>\<open>Subcontainers: true, NumStats: 1\<close>; the empty
  container name is omitted. Marshalling this struct has no failing case.
\<close>

definition buildContainersRequest :: "error + string" where
  \<open>buildContainersRequest = Inr ''{"num_stats":1,"subcontainers":true}''\<close>

text \<open>
  The proxy fetch that ends the body of the loop of \<^verbatim>\<open>downloadNodeData\<close>, then the body for
  one node, then the loop. \<^verbatim>\<open>failedNodeList\<close> is threaded through.
\<close>

definition downloadNodeData_proxy ::
  "env \<Rightarrow> KubeAgentConfig \<Rightarrow> Node \<Rightarrow> nodeFetchData \<Rightarrow> (string \<rightharpoonup> error) \<Rightarrow> world
     \<Rightarrow> (string \<rightharpoonup> error) \<times> world" where
  "downloadNodeData_proxy e config n nd failedNodeList w =
     (case proxyNodeFetch e nd config w of
        (Some err, w1) \<Rightarrow>
          (failedNodeList(Name n \<mapsto> Errorf (''proxy connect failed: '' @ message err)), w1)
      | (None, w1) \<Rightarrow> (failedNodeList, w1))"

text \<open>The \<^verbatim>\<open>nodeFetchData\<close> literal the loop builds for a node.\<close>

definition nodeFetchData_of :: "string \<Rightarrow> KubeAgentConfig \<Rightarrow> string \<Rightarrow> string \<Rightarrow> Node \<Rightarrow> nodeFetchData" where
  "nodeFetchData_of pfx config workDir containersRequest n =
     \<lparr>nd_nodeName = Name n, nd_prefix = pfx, nd_workDir = workDir,
      nd_ClusterHostURL = ClusterHostURL config, nd_containersRequest = containersRequest\<rparr>"

definition downloadNodeData_node ::
  "env \<Rightarrow> string \<Rightarrow> KubeAgentConfig \<Rightarrow> string \<Rightarrow> ClientsetNodeSource \<Rightarrow> string \<Rightarrow> Node
     \<Rightarrow> (string \<rightharpoonup> error) \<Rightarrow> world \<Rightarrow> (string \<rightharpoonup> error) \<times> world" where
  "downloadNodeData_node e pfx config workDir nodeSource containersRequest n failedNodeList w =
     (let failedNodeList1 =
            (if ProviderID n = []
             then failedNodeList(Name n \<mapsto> Errorf (''Provider ID for node does not exist. '' @
                    ''If this condition persists it will cause inconsistent cluster allocation''))
             else failedNodeList);
          nd = nodeFetchData_of pfx config workDir containersRequest n
      in
      if nodeRetrievalMethod config = direct
      then (case isFargateNode n w of
              (False, w1) \<Rightarrow>
                (case directNodeFetch e nodeSource config n nd w1 of
                   (None, w2) \<Rightarrow> (failedNodeList1, w2)
                 | (Some err, w2) \<Rightarrow>
                     downloadNodeData_proxy e config n nd
                       (failedNodeList1(Name n \<mapsto>
                          Errorf (''direct connect failed (will attempt proxy): '' @ message err))) w2)
            | (True, w1) \<Rightarrow> downloadNodeData_proxy e config n nd failedNodeList1 w1)
      else downloadNodeData_proxy e config n nd failedNodeList1 w)"

fun downloadNodeData_loop ::
  "env \<Rightarrow> string \<Rightarrow> KubeAgentConfig \<Rightarrow> string \<Rightarrow> ClientsetNodeSource \<Rightarrow> string \<Rightarrow> Node list
     \<Rightarrow> (string \<rightharpoonup> error) \<Rightarrow> world \<Rightarrow> (string \<rightharpoonup> error) \<times> world" where
  "downloadNodeData_loop e pfx config workDir nodeSource containersRequest [] failedNodeList w =
     (failedNodeList, w)"
| "downloadNodeData_loop e pfx config workDir nodeSource containersRequest (n # nodes) failedNodeList w =
     (case downloadNodeData_node e pfx config workDir nodeSource containersRequest n failedNodeList w of
        (failedNodeList1, w1) \<Rightarrow>
          downloadNodeData_loop e pfx config workDir nodeSource containersRequest nodes failedNodeList1 w1)"

text \<open>
  The result is the pair the source returns: the failure map (\<open>None\<close> is the nil map) and
  the error.
\<close>

definition downloadNodeData ::
  "env \<Rightarrow> string \<Rightarrow> KubeAgentConfig \<Rightarrow> string \<Rightarrow> ClientsetNodeSource \<Rightarrow> world
     \<Rightarrow> ((string \<rightharpoonup> error) option \<times> error option) \<times> world" where
  "downloadNodeData e pfx config workDir nodeSource w =
     (case RetryOnConflict DefaultBackoff_Steps (GetReadyNodes e nodeSource) None w of
        (Inl err, w1) \<Rightarrow>
          ((None, Some (Errorf (''cloudability metric agent is unable to get a list of nodes: '' @
                                 message err))), w1)
      | (Inr nodes, w1) \<Rightarrow>
          (case buildContainersRequest of
             Inl err \<Rightarrow>
               ((None, Some (Errorf (''error occurred requesting container statistics: '' @
                                      message err))), w1)
           | Inr containersRequest \<Rightarrow>
               (case downloadNodeData_loop e pfx config workDir nodeSource containersRequest nodes
                       Map.empty w1 of
                  (failedNodeList, w2) \<Rightarrow> ((Some failedNodeList, None), w2))))"

subsection \<open>The connectivity prober\<close>

definition testNodeConn ::
  "env \<Rightarrow> KubeAgentConfig \<Rightarrow> http_client \<Rightarrow> EndpointMask \<Rightarrow> string \<Rightarrow> string \<Rightarrow> string \<Rightarrow> world
     \<Rightarrow> (bool \<times> error option) \<times> world" where
  "testNodeConn e config client m nodeStatSum containerStats cadvisorMetricsURL w =
     (case TestHTTPConnection e client nodeStatSum MethodGet (BearerToken config) w of
        ((ns, Some err), w1) \<Rightarrow> ((False, Some err), w1)
      | ((ns, None), w1) \<Rightarrow>
          (case TestHTTPConnection e client cadvisorMetricsURL MethodGet (BearerToken config)
                  (SetAvailable m NodeStatsSummaryEndpoint ns
                     (logf (AvailabilityIs NodeStatsSummaryEndpoint ns) w1)) of
             ((cm, Some err), w2) \<Rightarrow> ((False, Some err), w2)
           | ((cm, None), w2) \<Rightarrow>
               (let w3 = SetAvailable m NodeCadvisorEndpoint cm
                           (logf (AvailabilityIs NodeCadvisorEndpoint cm) w2)
                in
                if RetrieveStatsContainer config
                then (case TestHTTPConnection e client containerStats MethodPost (BearerToken config) w3 of
                        ((cs, Some err), w4) \<Rightarrow> ((False, Some err), w4)
                      | ((cs, None), w4) \<Rightarrow>
                          ((ns \<and> (cm \<or> cs), None),
                           SetAvailable m NodeContainerEndpoint cs
                             (logf (AvailabilityIs NodeContainerEndpoint cs) w4)))
                else ((ns \<and> (cm \<or> False), None), w3))))"

text \<open>
  The client \<^verbatim>\<open>ensureNodeSource\<close> builds for the direct probe: a timeout of thirty
  seconds and no verification of the certificate.
\<close>

definition nodeHTTPClient :: http_client where
  "nodeHTTPClient = \<lparr>Timeout = 30, InsecureSkipVerify = True\<rparr>"

text \<open>The two calls of \<^verbatim>\<open>testNodeConn\<close> in \<^verbatim>\<open>ensureNodeSource\<close>, with their arguments.\<close>

definition probeDirect ::
  "env \<Rightarrow> KubeAgentConfig \<Rightarrow> string \<Rightarrow> 32 word \<Rightarrow> world \<Rightarrow> (bool \<times> error option) \<times> world" where
  "probeDirect e config i p w =
     (let d = directNodeEndpoints i p in
      testNodeConn e config nodeHTTPClient (DirectEndpointMask config)
        (directNode_statsSummary d) (directNode_statsContainer d) (directNode_mCAdvisor d) w)"

definition probeProxy ::
  "env \<Rightarrow> KubeAgentConfig \<Rightarrow> Node \<Rightarrow> world \<Rightarrow> (bool \<times> error option) \<times> world" where
  "probeProxy e config firstNode w =
     (let p = proxyEndpoints (ClusterHostURL config) (Name firstNode) in
      testNodeConn e config (HTTPClient config) (ProxyEndpointMask config)
        (proxyAPI_statsSummary p) (proxyAPI_statsContainer p) (proxyAPI_mCAdvisor p) w)"

text \<open>
  The second half of \<^verbatim>\<open>ensureNodeSource\<close>, from the comment "test node connectivity via
  kube-proxy" on. The error of the last line is formatted from \<^verbatim>\<open>err\<close>, which is nil
  there, and \<^verbatim>\<open>%v\<close> prints a nil error as \<^verbatim>\<open><nil>\<close>.
\<close>

definition ensureNodeSource_proxy ::
  "env \<Rightarrow> KubeAgentConfig \<Rightarrow> Node \<Rightarrow> world \<Rightarrow> (KubeAgentConfig \<times> error option) \<times> world" where
  "ensureNodeSource_proxy e config firstNode w =
     (case probeProxy e config firstNode w of
        ((success, Some err), w1) \<Rightarrow> ((config, Some err), w1)
      | ((success, None), w1) \<Rightarrow>
          if success
          then ((config\<lparr>NodeClient := ZeroClient, nodeRetrievalMethod := proxy\<rparr>, None), w1)
          else ((config\<lparr>nodeRetrievalMethod := unreachable, RetrieveNodeSummaries := False\<rparr>,
                 Some (Errorf (''unable to retrieve node metrics. Please verify RBAC roles: '' @
                               ''<nil>''))), w1))"

text \<open>
  \<^verbatim>\<open>ensureNodeSource\<close>. The result is \<open>None\<close> where the source would panic: indexing
  \<^verbatim>\<open>nodes[0]\<close> in an empty slice.
\<close>

definition ensureNodeSource ::
  "env \<Rightarrow> KubeAgentConfig \<Rightarrow> world \<Rightarrow> ((KubeAgentConfig \<times> error option) \<times> world) option" where
  "ensureNodeSource e config0 w =
     (let clientSetNodeSource = NewClientsetNodeSource (Clientset config0);
          nodeClient = NewClient nodeHTTPClient True (BearerToken config0) (CollectionRetryLimit config0);
          config = config0\<lparr>NodeClient := nodeClient\<rparr>
      in
      case GetReadyNodes e clientSetNodeSource w of
        (Inl err, w1) \<Rightarrow> Some ((config, Some (Errorf (''error retrieving nodes: '' @ message err))), w1)
      | (Inr nodes, w1) \<Rightarrow>
          (case nodes of
             [] \<Rightarrow> None
           | firstNode # rest \<Rightarrow>
               (case NodeAddress clientSetNodeSource firstNode of
                  Inl err \<Rightarrow>
                    Some ((config, Some (Errorf (''error retrieving node addresses: '' @ message err))), w1)
                | Inr (i, p) \<Rightarrow>
                    (case allowDirectConnect config nodes w1 of
                       (True, w2) \<Rightarrow>
                         (case probeDirect e config i p w2 of
                            ((success, Some err), w3) \<Rightarrow> Some ((config, Some err), w3)
                          | ((success, None), w3) \<Rightarrow>
                              if success
                              then Some ((config\<lparr>nodeRetrievalMethod := direct\<rparr>, None), w3)
                              else Some (ensureNodeSource_proxy e config firstNode w3))
                     | (False, w2) \<Rightarrow> Some (ensureNodeSource_proxy e config firstNode w2)))))"

subsection \<open>Notions the properties are stated with\<close>

text \<open>
  A node is retained by \<^verbatim>\<open>GetReadyNodes\<close> when its conditions hold one of type
  \<^verbatim>\<open>Ready\<close>; \<open>readyConditionTrue\<close> says that the condition of type \<^verbatim>\<open>Ready\<close> (the one
  \<^verbatim>\<open>getNodeCondition\<close> finds) has status \<^verbatim>\<open>True\<close>.
\<close>

definition retained :: "Node \<Rightarrow> bool" where
  "retained n = (\<exists>c \<in> set (Conditions (Status n)). condType c = NodeReady)"

definition readyConditionTrue :: "Node \<Rightarrow> bool" where
  "readyConditionTrue n =
     (case getNodeCondition (Some (Status n)) NodeReady of
        (i, Some c) \<Rightarrow> condStatus c = ConditionTrue
      | (i, None) \<Rightarrow> False)"

text \<open>The calls that fetch an endpoint.\<close>

fun is_FetchCall :: "call \<Rightarrow> bool" where
  "is_FetchCall (FetchCall c m s wd u b) = True"
| "is_FetchCall _ = False"

text \<open>
  The fetch of one node as the specification words it: the requests of the available
  endpoints in the fixed order summary, cadvisor, container, issued one after the other
  until the first error.
\<close>

definition summaryRequest :: "nodeFetchData \<Rightarrow> raw_client \<Rightarrow> nodeAPI \<Rightarrow> call" where
  "summaryRequest nd c api =
     FetchCall c MethodGet (nd_prefix nd @ ''-summary-'' @ nd_nodeName nd) (nd_workDir nd)
       (statsSummary api) None"

definition cadvisorRequest :: "nodeFetchData \<Rightarrow> raw_client \<Rightarrow> nodeAPI \<Rightarrow> call" where
  "cadvisorRequest nd c api =
     FetchCall c MethodGet (nd_prefix nd @ ''-cadvisor_metrics-'' @ nd_nodeName nd) (nd_workDir nd)
       (mCAdvisor api) None"

definition containerRequest :: "nodeFetchData \<Rightarrow> raw_client \<Rightarrow> nodeAPI \<Rightarrow> call" where
  "containerRequest nd c api =
     FetchCall c MethodPost (nd_prefix nd @ ''-container-'' @ nd_nodeName nd) (nd_workDir nd)
       (statsContainer api) (Some (nd_containersRequest nd))"

definition planned_requests :: "nodeFetchData \<Rightarrow> raw_client \<Rightarrow> nodeAPI \<Rightarrow> Endpoint set \<Rightarrow> call list" where
  "planned_requests nd c api available =
     (if NodeStatsSummaryEndpoint \<in> available then [summaryRequest nd c api] else []) @
     (if NodeCadvisorEndpoint \<in> available then [cadvisorRequest nd c api] else []) @
     (if NodeContainerEndpoint \<in> available then [containerRequest nd c api] else [])"

fun fetch_until_error :: "env \<Rightarrow> call list \<Rightarrow> call list \<Rightarrow> error option \<times> call list" where
  "fetch_until_error e history [] = (None, history)"
| "fetch_until_error e history (r # rs) =
     (case get_raw e history r of
        Some err \<Rightarrow> (Some err, history @ [r])
      | None \<Rightarrow> fetch_until_error e (history @ [r]) rs)"

text \<open>The calls a function added to a world: those of \<open>w'\<close> after the calls of \<open>w\<close>.\<close>

definition new_calls :: "world \<Rightarrow> world \<Rightarrow> call list" where
  "new_calls w w' = drop (length (calls w)) (calls w')"

subsection \<open>Concrete nodes, configurations and environments\<close>

definition node_A :: Node where
  "node_A = \<lparr>Name = ''node-a'', Labels = Map.empty, ProviderID = ''aws:///i-0a'',
     Status = \<lparr>Conditions = [NodeCondition ''MemoryPressure'' ''False'', NodeCondition ''Ready'' ''True''],
               Addresses = [NodeAddr ''Hostname'' ''node-a'', NodeAddr ''InternalIP'' ''10.0.0.1''],
               KubeletPort = 10250\<rparr>\<rparr>"

definition node_B :: Node where
  "node_B = \<lparr>Name = ''node-b'', Labels = Map.empty, ProviderID = ''aws:///i-0b'',
     Status = \<lparr>Conditions = [NodeCondition ''Ready'' ''True''],
               Addresses = [NodeAddr ''InternalIP'' ''10.0.0.2''],
               KubeletPort = 10250\<rparr>\<rparr>"

definition node_C :: Node where
  "node_C = \<lparr>Name = ''fargate-c'', Labels = [''eks.amazonaws.com/compute-type'' \<mapsto> ''fargate''],
     ProviderID = ''aws:///i-0c'',
     Status = \<lparr>Conditions = [NodeCondition ''Ready'' ''True''],
               Addresses = [NodeAddr ''InternalIP'' ''10.0.0.3''],
               KubeletPort = 10250\<rparr>\<rparr>"

definition node_D :: Node where
  "node_D = \<lparr>Name = ''node-d'', Labels = Map.empty, ProviderID = ''aws:///i-0d'',
     Status = \<lparr>Conditions = [NodeCondition ''Ready'' ''True''],
               Addresses = [NodeAddr ''ExternalIP'' ''54.1.2.3'', NodeAddr ''Hostname'' ''node-d''],
               KubeletPort = 10250\<rparr>\<rparr>"

definition node_N :: Node where
  "node_N = \<lparr>Name = ''node-n'', Labels = Map.empty, ProviderID = ''aws:///i-0n'',
     Status = \<lparr>Conditions = [NodeCondition ''Ready'' ''False''],
               Addresses = [NodeAddr ''InternalIP'' ''10.0.0.9''],
               KubeletPort = 10250\<rparr>\<rparr>"

definition node_U :: Node where
  "node_U = \<lparr>Name = ''node-u'', Labels = Map.empty, ProviderID = ''aws:///i-0u'',
     Status = \<lparr>Conditions = [NodeCondition ''DiskPressure'' ''False''],
               Addresses = [NodeAddr ''InternalIP'' ''10.0.0.8''],
               KubeletPort = 10250\<rparr>\<rparr>"

definition apiClient :: http_client where
  "apiClient = \<lparr>Timeout = 0, InsecureSkipVerify = False\<rparr>"

definition cfg0 :: KubeAgentConfig where
  "cfg0 = \<lparr>Clientset = 0, BearerToken = ''token'', CollectionRetryLimit = 0,
     NodeClient = ZeroClient,
     InClusterClient = NewClient apiClient False ''token'' 0,
     HTTPClient = apiClient,
     ClusterHostURL = ''https://kube'', nodeRetrievalMethod = [],
     DirectEndpointMask = 0, ProxyEndpointMask = 1,
     RetrieveNodeSummaries = True, RetrieveStatsContainer = False, ForceKubeProxy = False\<rparr>"

definition cfg_direct :: KubeAgentConfig where
  "cfg_direct = cfg0\<lparr>NodeClient := NewClient nodeHTTPClient True ''token'' 0,
                      nodeRetrievalMethod := direct\<rparr>"

definition world0 :: world where
  "world0 = \<lparr>masks = (\<lambda>m. {})(0 := {NodeStatsSummaryEndpoint, NodeCadvisorEndpoint},
                                 1 := {NodeStatsSummaryEndpoint, NodeCadvisorEndpoint}),
              calls = [], logs = []\<rparr>"

definition env_listing :: "(error + Node list) \<Rightarrow> env" where
  "env_listing r = \<lparr>list_nodes = (\<lambda>h c. r), test_conn = (\<lambda>h c. (True, None)), get_raw = (\<lambda>h c. None)\<rparr>"

definition cns0 :: ClientsetNodeSource where
  "cns0 = NewClientsetNodeSource 0"

text \<open>
  The scenario of the specification: three ready nodes, \<open>node_A\<close> and \<open>node_B\<close> plain,
  \<open>node_C\<close> on Fargate, retrieval mode direct. Every fetch succeeds but the direct fetch of
  the cadvisor metrics of \<open>node_B\<close>.
\<close>

definition env_scenario :: env where
  "env_scenario =
     \<lparr>list_nodes = (\<lambda>h c. Inr [node_A, node_B, node_C]),
      test_conn = (\<lambda>h c. (True, None)),
      get_raw = (\<lambda>h c. case c of
          FetchCall cl method src wd url body \<Rightarrow>
            if url = ''https://10.0.0.2:10250/metrics/cadvisor''
            then Some (Errorf ''connection refused'') else None
        | _ \<Rightarrow> None)\<rparr>"

definition containersRequestBody :: string where
  \<open>containersRequestBody = ''{"num_stats":1,"subcontainers":true}''\<close>

definition nd_B :: nodeFetchData where
  "nd_B = nodeFetchData_of ''stats'' cfg_direct ''/tmp/wd'' containersRequestBody node_B"

definition nd_D :: nodeFetchData where
  "nd_D = nodeFetchData_of ''stats'' cfg_direct ''/tmp/wd'' containersRequestBody node_D"

text \<open>The world when the cycle of the scenario reaches \<open>node_B\<close>.\<close>

definition world_at_B :: world where
  "world_at_B =
     snd (downloadNodeData_loop env_scenario ''stats'' cfg_direct ''/tmp/wd'' cns0 containersRequestBody
            [node_A] Map.empty (snd (GetReadyNodes env_scenario cns0 world0)))"

text \<open>A world whose two masks hold all three endpoints, and one with no endpoint.\<close>

definition world_full :: world where
  "world_full =
     \<lparr>masks = (\<lambda>m. {})(0 := {NodeStatsSummaryEndpoint, NodeContainerEndpoint, NodeCadvisorEndpoint},
                          1 := {NodeStatsSummaryEndpoint, NodeContainerEndpoint, NodeCadvisorEndpoint}),
      calls = [], logs = []\<rparr>"

definition world_empty :: world where
  "world_empty = \<lparr>masks = (\<lambda>m. {}), calls = [], logs = []\<rparr>"

text \<open>
  Environments for the prober: the listing gives \<open>node_A\<close> and \<open>node_B\<close>, and a probe is
  answered from the call alone.
\<close>

definition env_probes :: "(call \<Rightarrow> bool \<times> error option) \<Rightarrow> env" where
  "env_probes answer =
     \<lparr>list_nodes = (\<lambda>h c. Inr [node_A, node_B]), test_conn = (\<lambda>h c. answer c), get_raw = (\<lambda>h c. None)\<rparr>"

definition all_unreachable :: "call \<Rightarrow> bool \<times> error option" where
  "all_unreachable c = (False, None)"

definition all_reachable :: "call \<Rightarrow> bool \<times> error option" where
  "all_reachable c = (True, None)"

text \<open>
  Answers to the probes of three URLs: \<open>reach ns cm cs\<close> gives the reachability of the
  summary, the cadvisor and the container URL with no transport error; \<open>resets u\<close> answers
  the probe of \<open>u\<close> with a transport error and finds every other URL reachable.
\<close>

definition reach :: "bool \<Rightarrow> bool \<Rightarrow> bool \<Rightarrow> call \<Rightarrow> bool \<times> error option" where
  "reach ns cm cs c =
     (case c of
        ProbeCall client url method token \<Rightarrow>
          ((url = ''https://kube/sum'' \<and> ns) \<or> (url = ''https://kube/cad'' \<and> cm) \<or>
           (url = ''https://kube/cont'' \<and> cs), None)
      | _ \<Rightarrow> (False, None))"

definition resets :: "string \<Rightarrow> call \<Rightarrow> bool \<times> error option" where
  "resets u c =
     (case c of
        ProbeCall client url method token \<Rightarrow>
          if url = u then (False, Some (Errorf ''connection reset by peer'')) else (True, None)
      | _ \<Rightarrow> (False, None))"

definition proxy_times_out :: "call \<Rightarrow> bool \<times> error option" where
  "proxy_times_out c =
     (case c of
        ProbeCall client url method token \<Rightarrow>
          if client = nodeHTTPClient then (False, None)
          else (False, Some (Errorf ''dial tcp 10.96.0.1:443: i/o timeout''))
      | _ \<Rightarrow> (False, None))"

definition cfg_probing :: KubeAgentConfig where
  "cfg_probing = cfg0\<lparr>NodeClient := NewClient nodeHTTPClient True ''token'' 0\<rparr>"

definition world_listed :: "env \<Rightarrow> world" where
  "world_listed e = snd (GetReadyNodes e cns0 world_empty)"

definition cfg_container :: KubeAgentConfig where
  "cfg_container = cfg0\<lparr>RetrieveStatsContainer := True\<rparr>"

text \<open>A world whose mask 1 holds the summary and the container endpoint.\<close>

definition world_container :: world where
  "world_container =
     \<lparr>masks = (\<lambda>m. {})(1 := {NodeStatsSummaryEndpoint, NodeContainerEndpoint}), calls = [], logs = []\<rparr>"

text \<open>
  The scenario with the proxy out of reach for \<open>node_B\<close> as well: the direct fetch of its
  cadvisor metrics is refused and the proxy fetch of its summary times out.
\<close>

definition env_outage :: env where
  "env_outage =
     \<lparr>list_nodes = (\<lambda>h c. Inr [node_A, node_B, node_C]),
      test_conn = (\<lambda>h c. (True, None)),
      get_raw = (\<lambda>h c. case c of
          FetchCall cl method src wd url body \<Rightarrow>
            if url = ''https://10.0.0.2:10250/metrics/cadvisor''
            then Some (Errorf ''connection refused'')
            else if url = ''https://kube/api/v1/nodes/node-b/proxy/stats/summary''
            then Some (Errorf ''context deadline exceeded'')
            else None
        | _ \<Rightarrow> None)\<rparr>"

text \<open>The world when the cycle of that scenario reaches \<open>node_B\<close>.\<close>

definition world_at_B_outage :: world where
  "world_at_B_outage =
     snd (downloadNodeData_loop env_outage ''stats'' cfg_direct ''/tmp/wd'' cns0 containersRequestBody
            [node_A] Map.empty (snd (GetReadyNodes env_outage cns0 world0)))"

section \<open>Properties\<close>

subsection \<open>Frame lemmas: what leaves the masks and the calls alone\<close>

lemma masks_issue [simp]: "masks (issue c w) = masks w"
  by (simp add: issue_def)

lemma masks_logf [simp]: "masks (logf l w) = masks w"
  by (simp add: logf_def)

lemma calls_logf [simp]: "calls (logf l w) = calls w"
  by (simp add: logf_def)

lemma calls_issue [simp]: "calls (issue c w) = calls w @ [c]"
  by (simp add: issue_def)

lemma calls_SetAvailable [simp]: "calls (SetAvailable m ep b w) = calls w"
  by (simp add: SetAvailable_def)

lemma masks_GetRawEndPoint:
  "GetRawEndPoint e c method src wd url body w = (r, w') \<Longrightarrow> masks w' = masks w"
  by (auto simp: GetRawEndPoint_def)

lemma masks_retrieveNodeData:
  "retrieveNodeData e nd c m api w = (r, w') \<Longrightarrow> masks w' = masks w"
  by (auto simp: retrieveNodeData_def GetRawEndPoint_def Let_def split: option.splits prod.splits if_splits)

lemma masks_directNodeFetch:
  "directNodeFetch e ns config n nd w = (r, w') \<Longrightarrow> masks w' = masks w"
  by (auto simp: directNodeFetch_def split: sum.splits prod.splits dest: masks_retrieveNodeData)

lemma masks_proxyNodeFetch:
  "proxyNodeFetch e nd config w = (r, w') \<Longrightarrow> masks w' = masks w"
  by (auto simp: proxyNodeFetch_def dest: masks_retrieveNodeData)

lemma masks_isFargateNode: "isFargateNode n w = (r, w') \<Longrightarrow> masks w' = masks w"
  by (auto simp: isFargateNode_def Let_def split: if_splits)

lemma masks_downloadNodeData_proxy:
  "downloadNodeData_proxy e config n nd f w = (f', w') \<Longrightarrow> masks w' = masks w"
  by (auto simp: downloadNodeData_proxy_def split: prod.splits option.splits dest: masks_proxyNodeFetch)

lemma masks_downloadNodeData_node:
  "downloadNodeData_node e pfx config wd ns cr n f w = (f', w') \<Longrightarrow> masks w' = masks w"
  by (auto simp: downloadNodeData_node_def Let_def
      split: prod.splits option.splits bool.splits if_splits
      dest!: masks_downloadNodeData_proxy masks_directNodeFetch masks_isFargateNode)

lemma masks_downloadNodeData_loop:
  "downloadNodeData_loop e pfx config wd ns cr nodes f w = (f', w') \<Longrightarrow> masks w' = masks w"
proof (induction nodes arbitrary: f w)
  case Nil
  then show ?case by simp
next
  case (Cons n nodes)
  obtain f1 w1 where s: "downloadNodeData_node e pfx config wd ns cr n f w = (f1, w1)"
    by (cases "downloadNodeData_node e pfx config wd ns cr n f w")
  have "masks w1 = masks w"
    using s by (rule masks_downloadNodeData_node)
  moreover have "masks w' = masks w1"
    using Cons.prems s by (intro Cons.IH [of f1 w1]) simp
  ultimately show ?case by simp
qed

lemma masks_GetReadyNodes_loop:
  "GetReadyNodes_loop items acc w = (r, w') \<Longrightarrow> masks w' = masks w"
proof (induction items arbitrary: acc w)
  case Nil
  then show ?case by simp
next
  case (Cons n items)
  then show ?case
    by (auto split: prod.splits if_splits)
qed

lemma masks_GetReadyNodes: "GetReadyNodes e cns w = (r, w') \<Longrightarrow> masks w' = masks w"
  by (auto simp: GetReadyNodes_def List_nodes_def split: prod.splits sum.splits if_splits
      dest!: masks_GetReadyNodes_loop)

lemma masks_RetryOnConflict:
  assumes fn: "\<And>w1 r1 w2. fn w1 = (r1, w2) \<Longrightarrow> masks w2 = masks w1"
  shows "RetryOnConflict steps fn lastErr w = (r, w') \<Longrightarrow> masks w' = masks w"
proof (induction steps arbitrary: lastErr w)
  case 0
  then show ?case by auto
next
  case (Suc steps)
  obtain r1 w1 where s: "fn w = (r1, w1)" by (cases "fn w")
  have m: "masks w1 = masks w" using s by (rule fn)
  show ?case
  proof (cases r1)
    case (Inl err)
    show ?thesis
    proof (cases "IsConflict err")
      case True
      with Suc.prems s Inl have "RetryOnConflict steps fn (Some err) w1 = (r, w')" by simp
      then have "masks w' = masks w1" by (rule Suc.IH)
      with m show ?thesis by simp
    next
      case False
      with Suc.prems s Inl m show ?thesis by auto
    qed
  next
    case (Inr nodes)
    with Suc.prems s m show ?thesis by auto
  qed
qed

lemma masks_downloadNodeData:
  "downloadNodeData e pfx config wd ns w = (r, w') \<Longrightarrow> masks w' = masks w"
proof -
  assume a: "downloadNodeData e pfx config wd ns w = (r, w')"
  obtain r1 w1 where s: "RetryOnConflict DefaultBackoff_Steps (GetReadyNodes e ns) None w = (r1, w1)"
    by (cases "RetryOnConflict DefaultBackoff_Steps (GetReadyNodes e ns) None w")
  have m: "masks w1 = masks w"
    using masks_GetReadyNodes s by (rule masks_RetryOnConflict)
  show ?thesis
    using a s m
    by (auto simp: downloadNodeData_def split: prod.splits sum.splits dest!: masks_downloadNodeData_loop)
qed

subsection \<open>The node listing\<close>

lemma getNodeCondition_from_found:
  "0 \<le> i \<Longrightarrow> getNodeCondition_from cs t i = (j, nc) \<Longrightarrow>
     (0 \<le> j \<and> (case nc of Some c \<Rightarrow> condType c = t | None \<Rightarrow> False)) = (\<exists>c \<in> set cs. condType c = t)"
proof (induction cs arbitrary: i)
  case Nil
  then show ?case by auto
next
  case (Cons c cs)
  show ?case
  proof (cases "condType c = t")
    case True
    with Cons.prems show ?thesis by auto
  next
    case False
    with Cons.prems have "getNodeCondition_from cs t (i + 1) = (j, nc)" by simp
    moreover have "0 \<le> i + 1" using Cons.prems by simp
    ultimately have "(0 \<le> j \<and> (case nc of Some c \<Rightarrow> condType c = t | None \<Rightarrow> False)) = (\<exists>c \<in> set cs. condType c = t)"
      by (rule Cons.IH [rotated])
    with False show ?thesis by simp
  qed
qed

lemma GetReadyNodes_test:
  "getNodeCondition (Some (Status n)) NodeReady = (i, nc) \<Longrightarrow>
     (0 \<le> i \<and> (case nc of Some c \<Rightarrow> condType c = NodeReady | None \<Rightarrow> False)) = retained n"
  unfolding retained_def getNodeCondition_def
  using getNodeCondition_from_found [of 0 "Conditions (Status n)" NodeReady i nc] by simp

lemma GetReadyNodes_loop_filter:
  "fst (GetReadyNodes_loop items acc w) = acc @ filter retained items"
proof (induction items arbitrary: acc w)
  case Nil
  show ?case by simp
next
  case (Cons n items)
  obtain i nc where g: "getNodeCondition (Some (Status n)) NodeReady = (i, nc)"
    by (cases "getNodeCondition (Some (Status n)) NodeReady")
  show ?case
    using g GetReadyNodes_test [OF g] Cons.IH by simp
qed

lemma GetReadyNodes_loop_calls:
  "calls (snd (GetReadyNodes_loop items acc w)) = calls w"
proof (induction items arbitrary: acc w)
  case Nil
  show ?case by simp
next
  case (Cons n items)
  then show ?case by (simp split: prod.splits)
qed

lemma GetReadyNodes_result:
  "fst (GetReadyNodes e cns w) =
     (case list_nodes e (calls w) (ListCall (clientSet cns)) of
        Inl err \<Rightarrow> Inl err
      | Inr items \<Rightarrow>
          if filter retained items = [] then Inl (Errorf ''there were 0 nodes in a ready state'')
          else Inr (filter retained items))"
proof (cases "list_nodes e (calls w) (ListCall (clientSet cns))")
  case (Inl err)
  then show ?thesis by (simp add: GetReadyNodes_def List_nodes_def)
next
  case (Inr items)
  have "fst (GetReadyNodes_loop items [] (issue (ListCall (clientSet cns)) w)) = filter retained items"
    using GetReadyNodes_loop_filter [of items "[]"] by simp
  with Inr show ?thesis
    by (auto simp: GetReadyNodes_def List_nodes_def split: prod.splits)
qed

lemma GetReadyNodes_calls:
  "calls (snd (GetReadyNodes e cns w)) = calls w @ [ListCall (clientSet cns)]"
proof (cases "list_nodes e (calls w) (ListCall (clientSet cns))")
  case (Inl err)
  then show ?thesis by (simp add: GetReadyNodes_def List_nodes_def)
next
  case (Inr items)
  have "calls (snd (GetReadyNodes_loop items [] (issue (ListCall (clientSet cns)) w))) = calls w @ [ListCall (clientSet cns)]"
    by (simp add: GetReadyNodes_loop_calls)
  with Inr show ?thesis
    by (auto simp: GetReadyNodes_def List_nodes_def split: prod.splits)
qed

lemma GetReadyNodes_nonempty: "fst (GetReadyNodes e cns w) \<noteq> Inr []"
  by (simp add: GetReadyNodes_result split: sum.splits)

lemma RetryOnConflict_no_fetch:
  assumes fn: "\<And>w1. filter is_FetchCall (calls (snd (fn w1))) = filter is_FetchCall (calls w1)"
  shows "filter is_FetchCall (calls (snd (RetryOnConflict steps fn lastErr w))) = filter is_FetchCall (calls w)"
proof (induction steps arbitrary: lastErr w)
  case 0
  show ?case by simp
next
  case (Suc steps)
  obtain r1 w1 where s: "fn w = (r1, w1)" by (cases "fn w")
  have m: "filter is_FetchCall (calls w1) = filter is_FetchCall (calls w)"
    using fn [of w] s by simp
  show ?case
    using s m Suc.IH by (cases r1) auto
qed

lemma RetryOnConflict_first_plain_error:
  "fst (fn w) = Inl err \<Longrightarrow> \<not> IsConflict err \<Longrightarrow>
     RetryOnConflict (Suc steps) fn lastErr w = (Inl err, snd (fn w))"
  by (cases "fn w") auto

subsection \<open>Claims about the node directory and the Fargate policy\<close>

text \<open>
  C1. The claim: \<^verbatim>\<open>GetReadyNodes\<close> returns exactly the nodes whose \<^verbatim>\<open>Ready\<close> condition is
  present and has status true. The code tests that a condition of type \<^verbatim>\<open>Ready\<close> is
  present (\<open>GetReadyNodes_result\<close>: the result is the list filtered by \<open>retained\<close>) and
  never reads its status. On the listing of \<open>node_A\<close> (Ready, status True), \<open>node_N\<close>
  (Ready, status False) and \<open>node_U\<close> (no Ready condition) it returns \<open>node_A\<close> and
  \<open>node_N\<close>: a node whose \<^verbatim>\<open>Ready\<close> condition is not true is returned as ready.
\<close>

theorem GetReadyNodes_keeps_Ready_False:
  "fst (GetReadyNodes (env_listing (Inr [node_A, node_N, node_U])) cns0 world0) = Inr [node_A, node_N]
   \<and> \<not> readyConditionTrue node_N"
  by (simp add: Errorf_def NodeReady_def ConditionTrue_def NodeStatsSummaryEndpoint_def
      NodeCadvisorEndpoint_def issue_def logf_def List_nodes_def NewClientsetNodeSource_def
      getNodeCondition_def GetReadyNodes_def readyConditionTrue_def node_A_def node_N_def
      node_U_def world0_def env_listing_def cns0_def)

text \<open>
  C4. \<^verbatim>\<open>allowDirectConnect\<close> returns false if the configuration forces kube-proxy or if
  any node of the list carries the label \<^verbatim>\<open>eks.amazonaws.com/compute-type\<close> with value
  \<^verbatim>\<open>fargate\<close>, whatever the other nodes are, and true where neither holds.
\<close>

theorem allowDirectConnect_rule:
  "fst (allowDirectConnect config nodes w) =
     (\<not> ForceKubeProxy config \<and>
      \<not> (\<exists>n \<in> set nodes. Labels n ''eks.amazonaws.com/compute-type'' = Some ''fargate''))"
proof -
  have loop: "fst (allowDirectConnect_loop nodes w) =
     (\<not> (\<exists>n \<in> set nodes. Labels n ''eks.amazonaws.com/compute-type'' = Some ''fargate''))"
  proof (induction nodes arbitrary: w)
    case Nil
    show ?case by simp
  next
    case (Cons n nodes)
    show ?case
    proof (cases "Labels n ''eks.amazonaws.com/compute-type'' = Some ''fargate''")
      case True
      then show ?thesis by (simp add: isFargateNode_def)
    next
      case False
      then have "isFargateNode n w = (False, w)"
        by (auto simp: isFargateNode_def split: option.splits)
      with False Cons.IH [of w] show ?thesis by simp
    qed
  qed
  show ?thesis
    by (simp add: allowDirectConnect_def loop)
qed

theorem allowDirectConnect_rule_witness:
  "fst (allowDirectConnect cfg0 [node_A, node_B, node_C] world0) = False \<and>
   fst (allowDirectConnect cfg0 [node_A, node_B] world0) = True \<and>
   fst (allowDirectConnect (cfg0\<lparr>ForceKubeProxy := True\<rparr>) [node_A, node_B] world0) = False"
  using allowDirectConnect_rule [of cfg0 "[node_A, node_B, node_C]" world0]
    allowDirectConnect_rule [of cfg0 "[node_A, node_B]" world0]
    allowDirectConnect_rule [of "cfg0\<lparr>ForceKubeProxy := True\<rparr>" "[node_A, node_B]" world0]
  by (simp add: NodeStatsSummaryEndpoint_def NodeCadvisorEndpoint_def logf_def isFargateNode_def
      allowDirectConnect_def node_A_def node_B_def node_C_def apiClient_def cfg0_def world0_def)

subsection \<open>Claims about the fetch cycle\<close>

text \<open>
  C8. A fetch cycle never writes a mask: after \<^verbatim>\<open>downloadNodeData\<close>, and after
  \<^verbatim>\<open>retrieveNodeData\<close>, the store of masks is what it was before the call, so the
  direct mask and the proxy mask of the configuration hold the same endpoints. The
  configuration is passed by value and neither function returns one, so the retrieval
  mode of the caller's configuration cannot change either. The only function of the
  model that writes the store is \<open>SetAvailable\<close>, which only \<open>testNodeConn\<close> calls.
\<close>

theorem fetch_cycle_preserves_masks:
  "masks (snd (downloadNodeData e pfx config wd ns w)) = masks w \<and>
   masks (snd (retrieveNodeData e nd c m api w)) = masks w"
proof
  show "masks (snd (downloadNodeData e pfx config wd ns w)) = masks w"
    by (rule masks_downloadNodeData [of e pfx config wd ns w "fst (downloadNodeData e pfx config wd ns w)"]) simp
  show "masks (snd (retrieveNodeData e nd c m api w)) = masks w"
    by (rule masks_retrieveNodeData [of e nd c m api w "fst (retrieveNodeData e nd c m api w)"]) simp
qed

subsection \<open>Helper lemmas for the fetch cycle\<close>

lemma message_Errorf [simp]: "message (Errorf s) = s"
  by (simp add: Errorf_def)

lemma IsConflict_Errorf [simp]: "\<not> IsConflict (Errorf s)"
  by (simp add: Errorf_def)

lemma isFargateNode_not_labelled:
  "Labels n ''eks.amazonaws.com/compute-type'' \<noteq> Some ''fargate'' \<Longrightarrow> isFargateNode n w = (False, w)"
  by (auto simp: isFargateNode_def split: option.splits)

lemma GetReadyNodes_no_fetch:
  "filter is_FetchCall (calls (snd (GetReadyNodes e cns w))) = filter is_FetchCall (calls w)"
  by (simp add: GetReadyNodes_calls)

lemma downloadNodeData_on_error:
  "RetryOnConflict DefaultBackoff_Steps (GetReadyNodes e ns) None w = (Inl err, w1) \<Longrightarrow>
     downloadNodeData e pfx config wd ns w =
       ((None, Some (Errorf (''cloudability metric agent is unable to get a list of nodes: '' @ message err))), w1)"
  by (simp add: downloadNodeData_def)

lemma NodeAddress_from_no_internal:
  "\<forall>a \<in> set addrs. addrType a \<noteq> NodeInternalIP \<Longrightarrow>
     NodeAddress_from addrs n =
       Inl (Errorf (''Could not find internal IP address for node '' @ Name n @ '' ''))"
  by (induction addrs) auto

lemma retrieveNodeData_refines:
  "fst (retrieveNodeData e nd c m api w) =
     fst (fetch_until_error e (calls w) (planned_requests nd c api (masks w m))) \<and>
   calls (snd (retrieveNodeData e nd c m api w)) =
     snd (fetch_until_error e (calls w) (planned_requests nd c api (masks w m)))"
  by (simp add: retrieveNodeData_def planned_requests_def summaryRequest_def cadvisorRequest_def
      containerRequest_def Available_def GetRawEndPoint_def summary_def cadvisorMetrics_def container_def
      Let_def split: option.splits)

text \<open>
  C7. If the node listing fails, \<^verbatim>\<open>downloadNodeData\<close> returns the nil report with an error
  and attempts no fetch. The listing is \<^verbatim>\<open>GetReadyNodes\<close> under \<^verbatim>\<open>RetryOnConflict\<close>; the
  first part is for every error it ends with, the second for an error of the listing
  call that is not a conflict, the third for a listing none of whose nodes is retained,
  which fails with "there were 0 nodes in a ready state" after a single listing call.
\<close>

theorem downloadNodeData_listing_fails:
  "(fst (RetryOnConflict DefaultBackoff_Steps (GetReadyNodes e ns) None w) = Inl err \<longrightarrow>
      fst (downloadNodeData e pfx config wd ns w) =
        (None, Some (Errorf (''cloudability metric agent is unable to get a list of nodes: '' @ message err))) \<and>
      filter is_FetchCall (calls (snd (downloadNodeData e pfx config wd ns w))) = filter is_FetchCall (calls w))
   \<and> (list_nodes e (calls w) (ListCall (clientSet ns)) = Inl err \<and> \<not> IsConflict err \<longrightarrow>
      fst (downloadNodeData e pfx config wd ns w) =
        (None, Some (Errorf (''cloudability metric agent is unable to get a list of nodes: '' @ message err))) \<and>
      calls (snd (downloadNodeData e pfx config wd ns w)) = calls w @ [ListCall (clientSet ns)])
   \<and> (list_nodes e (calls w) (ListCall (clientSet ns)) = Inr items \<and> filter retained items = [] \<longrightarrow>
      fst (downloadNodeData e pfx config wd ns w) =
        (None, Some (Errorf (''cloudability metric agent is unable to get a list of nodes: '' @
                              ''there were 0 nodes in a ready state''))) \<and>
      calls (snd (downloadNodeData e pfx config wd ns w)) = calls w @ [ListCall (clientSet ns)])"
proof (intro conjI impI)
  let ?retry = "RetryOnConflict DefaultBackoff_Steps (GetReadyNodes e ns) None w"
  let ?msg = "''cloudability metric agent is unable to get a list of nodes: ''"
  {
    assume a: "fst ?retry = Inl err"
    then have r: "?retry = (Inl err, snd ?retry)"
      by (metis prod.collapse)
    show "fst (downloadNodeData e pfx config wd ns w) = (None, Some (Errorf (?msg @ message err)))"
      using downloadNodeData_on_error [OF r] by simp
    have "filter is_FetchCall (calls (snd ?retry)) = filter is_FetchCall (calls w)"
      by (rule RetryOnConflict_no_fetch) (rule GetReadyNodes_no_fetch)
    then show "filter is_FetchCall (calls (snd (downloadNodeData e pfx config wd ns w))) =
        filter is_FetchCall (calls w)"
      using downloadNodeData_on_error [OF r] by simp
  }
  have plain: "fst (downloadNodeData e pfx config wd ns w) = (None, Some (Errorf (?msg @ message err'))) \<and>
      calls (snd (downloadNodeData e pfx config wd ns w)) = calls w @ [ListCall (clientSet ns)]"
    if g: "fst (GetReadyNodes e ns w) = Inl err'" and nc: "\<not> IsConflict err'" for err'
  proof -
    have "?retry = (Inl err', snd (GetReadyNodes e ns w))"
      unfolding DefaultBackoff_Steps_def
      using RetryOnConflict_first_plain_error [of "GetReadyNodes e ns" w err' 3 None] g nc
      by (simp add: eval_nat_numeral)
    from downloadNodeData_on_error [OF this] show ?thesis
      by (simp add: GetReadyNodes_calls)
  qed
  {
    assume a: "list_nodes e (calls w) (ListCall (clientSet ns)) = Inl err \<and> \<not> IsConflict err"
    then have g: "fst (GetReadyNodes e ns w) = Inl err"
      by (simp add: GetReadyNodes_result)
    from plain [OF g] a
    show "fst (downloadNodeData e pfx config wd ns w) = (None, Some (Errorf (?msg @ message err)))"
      and "calls (snd (downloadNodeData e pfx config wd ns w)) = calls w @ [ListCall (clientSet ns)]"
      by simp_all
  }
  {
    assume a: "list_nodes e (calls w) (ListCall (clientSet ns)) = Inr items \<and> filter retained items = []"
    then have g: "fst (GetReadyNodes e ns w) = Inl (Errorf ''there were 0 nodes in a ready state'')"
      by (simp add: GetReadyNodes_result)
    from plain [OF g]
    show "fst (downloadNodeData e pfx config wd ns w) =
        (None, Some (Errorf (?msg @ ''there were 0 nodes in a ready state'')))"
      and "calls (snd (downloadNodeData e pfx config wd ns w)) = calls w @ [ListCall (clientSet ns)]"
      by simp_all
  }
qed

text \<open>
  Witness: a listing of the one node \<open>node_U\<close>, which has no \<^verbatim>\<open>Ready\<close> condition; a
  listing that fails with a plain error; a listing that fails with a conflict each of
  the four times it is tried.
\<close>

theorem downloadNodeData_listing_fails_witness:
  "fst (downloadNodeData (env_listing (Inr [node_U])) ''stats'' cfg_direct ''/tmp/wd'' cns0 world0) =
     (None, Some (Errorf ''cloudability metric agent is unable to get a list of nodes: there were 0 nodes in a ready state''))
   \<and> calls (snd (downloadNodeData (env_listing (Inr [node_U])) ''stats'' cfg_direct ''/tmp/wd'' cns0 world0)) =
       [ListCall 0]
   \<and> fst (downloadNodeData (env_listing (Inl (MkError False ''etcd unavailable''))) ''stats'' cfg_direct
            ''/tmp/wd'' cns0 world0) =
     (None, Some (Errorf ''cloudability metric agent is unable to get a list of nodes: etcd unavailable''))
   \<and> fst (downloadNodeData (env_listing (Inl (MkError True ''conflict''))) ''stats'' cfg_direct
            ''/tmp/wd'' cns0 world0) =
     (None, Some (Errorf ''cloudability metric agent is unable to get a list of nodes: conflict''))
   \<and> filter is_FetchCall (calls (snd (downloadNodeData (env_listing (Inl (MkError True ''conflict'')))
         ''stats'' cfg_direct ''/tmp/wd'' cns0 world0))) = []"
proof -
  have u: "list_nodes (env_listing (Inr [node_U])) (calls world0) (ListCall (clientSet cns0)) = Inr [node_U]
      \<and> filter retained [node_U] = []"
    by (simp add: NodeStatsSummaryEndpoint_def NodeCadvisorEndpoint_def NewClientsetNodeSource_def
        node_U_def world0_def env_listing_def cns0_def retained_def NodeReady_def)
  have t: "list_nodes (env_listing (Inl (MkError False ''etcd unavailable''))) (calls world0)
        (ListCall (clientSet cns0))
      = Inl (MkError False ''etcd unavailable'') \<and> \<not> IsConflict (MkError False ''etcd unavailable'')"
    by (simp add: NodeStatsSummaryEndpoint_def NodeCadvisorEndpoint_def NewClientsetNodeSource_def
        world0_def env_listing_def cns0_def)
  have c: "fst (RetryOnConflict DefaultBackoff_Steps
               (GetReadyNodes (env_listing (Inl (MkError True ''conflict''))) cns0) None world0)
      = Inl (MkError True ''conflict'')"
    by (simp add: DefaultBackoff_Steps_def eval_nat_numeral GetReadyNodes_def List_nodes_def env_listing_def)
  show ?thesis
    using downloadNodeData_listing_fails [of "env_listing (Inr [node_U])" cns0 world0 "MkError False []"
        "''stats''" cfg_direct "''/tmp/wd''" "[node_U]"] u
      downloadNodeData_listing_fails [of "env_listing (Inl (MkError False ''etcd unavailable''))" cns0 world0
        "MkError False ''etcd unavailable''" "''stats''" cfg_direct "''/tmp/wd''" "[]"] t
      downloadNodeData_listing_fails [of "env_listing (Inl (MkError True ''conflict''))" cns0 world0
        "MkError True ''conflict''" "''stats''" cfg_direct "''/tmp/wd''" "[]"] c
    by (simp add: world0_def cns0_def NewClientsetNodeSource_def)
qed

text \<open>
  C9. A node whose addresses hold no entry of type \<^verbatim>\<open>InternalIP\<close>: \<^verbatim>\<open>NodeAddress\<close>
  returns the error "Could not find internal IP address", whatever other addresses the
  node has; \<^verbatim>\<open>directNodeFetch\<close> returns that error, under the prefix "problem getting
  node address: ", and leaves the world as it was, so no request is issued; and in
  direct mode, for a node that is not on Fargate, the body of the loop records the
  direct failure and goes on with the proxy fetch.
\<close>

theorem no_internal_ip_never_direct:
  "\<forall>a \<in> set (Addresses (Status n)). addrType a \<noteq> NodeInternalIP \<Longrightarrow>
     NodeAddress cns n =
       Inl (Errorf (''Could not find internal IP address for node '' @ Name n @ '' '')) \<and>
     directNodeFetch e cns config n nd w =
       (Some (Errorf (''problem getting node address: '' @
                      ''Could not find internal IP address for node '' @ Name n @ '' '')), w) \<and>
     (nodeRetrievalMethod config = direct \<and>
      Labels n ''eks.amazonaws.com/compute-type'' \<noteq> Some ''fargate'' \<longrightarrow>
        downloadNodeData_node e pfx config wd cns cr n failed w =
          downloadNodeData_proxy e config n (nodeFetchData_of pfx config wd cr n)
            ((if ProviderID n = []
              then failed(Name n \<mapsto> Errorf (''Provider ID for node does not exist. '' @
                     ''If this condition persists it will cause inconsistent cluster allocation''))
              else failed)
             (Name n \<mapsto> Errorf (''direct connect failed (will attempt proxy): '' @
                 ''problem getting node address: '' @
                 ''Could not find internal IP address for node '' @ Name n @ '' ''))) w)"
proof -
  assume a: "\<forall>a \<in> set (Addresses (Status n)). addrType a \<noteq> NodeInternalIP"
  have addr: "NodeAddress cns n =
       Inl (Errorf (''Could not find internal IP address for node '' @ Name n @ '' ''))"
    unfolding NodeAddress_def by (rule NodeAddress_from_no_internal [OF a])
  have fetch: "directNodeFetch e cns config n nd' w' =
       (Some (Errorf (''problem getting node address: '' @
                      ''Could not find internal IP address for node '' @ Name n @ '' '')), w')" for nd' w'
    by (simp add: directNodeFetch_def addr)
  show ?thesis
    by (auto simp: addr fetch downloadNodeData_node_def Let_def isFargateNode_not_labelled)
qed

text \<open>
  Witness: \<open>node_D\<close> has an external IP and a host name only. In the direct-mode cycle its
  calls are the two proxy fetches, through the in-cluster client.
\<close>

theorem no_internal_ip_never_direct_witness:
  "NodeAddress cns0 node_D = Inl (Errorf ''Could not find internal IP address for node node-d '') \<and>
   directNodeFetch env_scenario cns0 cfg_direct node_D nd_D world0 =
     (Some (Errorf ''problem getting node address: Could not find internal IP address for node node-d ''),
      world0) \<and>
   fst (downloadNodeData_node env_scenario ''stats'' cfg_direct ''/tmp/wd'' cns0 containersRequestBody
          node_D Map.empty world0) ''node-d'' =
     Some (Errorf ''direct connect failed (will attempt proxy): problem getting node address: Could not find internal IP address for node node-d '') \<and>
   calls (snd (downloadNodeData_node env_scenario ''stats'' cfg_direct ''/tmp/wd'' cns0 containersRequestBody
          node_D Map.empty world0)) =
     [FetchCall (InClusterClient cfg_direct) ''GET'' ''stats-summary-node-d'' ''/tmp/wd''
        ''https://kube/api/v1/nodes/node-d/proxy/stats/summary'' None,
      FetchCall (InClusterClient cfg_direct) ''GET'' ''stats-cadvisor_metrics-node-d'' ''/tmp/wd''
        ''https://kube/api/v1/nodes/node-d/proxy/metrics/cadvisor'' None]"
proof -
  have h: "\<forall>a \<in> set (Addresses (Status node_D)). addrType a \<noteq> NodeInternalIP"
    by (simp add: node_D_def NodeInternalIP_def)
  show ?thesis
    using no_internal_ip_never_direct [OF h, of cns0 env_scenario cfg_direct nd_D world0 "''stats''"
        "''/tmp/wd''" containersRequestBody Map.empty]
    by (simp add: Errorf_def NodeInternalIP_def MethodGet_def MethodPost_def NodeStatsSummaryEndpoint_def
        NodeContainerEndpoint_def NodeCadvisorEndpoint_def issue_def logf_def
        GetRawEndPoint_def Available_def NewClientsetNodeSource_def NodeAddress_def
        digit_char_def fmt_int_def proxyAPI_statsSummary_def proxyAPI_statsContainer_def
        proxyAPI_mCAdvisor_def proxyEndpoints_def directNode_statsSummary_def
        directNode_statsContainer_def directNode_mCAdvisor_def directNodeEndpoints_def
        summary_def container_def cadvisorMetrics_def direct_def retrieveNodeData_def
        directNodeFetch_def proxyNodeFetch_def isFargateNode_def downloadNodeData_proxy_def
        nodeFetchData_of_def downloadNodeData_node_def nodeHTTPClient_def node_A_def node_B_def
        node_C_def node_D_def apiClient_def cfg0_def cfg_direct_def world0_def cns0_def
        env_scenario_def containersRequestBody_def nd_D_def fmt_nat.simps)
qed

text \<open>
  C5. \<^verbatim>\<open>retrieveNodeData\<close> issues the requests of the endpoints its mask marks available,
  in the order summary, cadvisor, container, and stops at the first error, which it
  returns: its result and the calls it leaves are those of \<open>fetch_until_error\<close> on the
  planned requests. In particular, when the summary fetch succeeded and the cadvisor fetch
  fails, that error is returned and the calls added are these two: the container request
  is not among them.
\<close>

theorem retrieveNodeData_first_error_aborts:
  "fst (retrieveNodeData e nd c m api w) =
     fst (fetch_until_error e (calls w) (planned_requests nd c api (masks w m))) \<and>
   calls (snd (retrieveNodeData e nd c m api w)) =
     snd (fetch_until_error e (calls w) (planned_requests nd c api (masks w m))) \<and>
   (Available m NodeStatsSummaryEndpoint w \<and> Available m NodeCadvisorEndpoint w \<and>
    get_raw e (calls w) (summaryRequest nd c api) = None \<and>
    get_raw e (calls w @ [summaryRequest nd c api]) (cadvisorRequest nd c api) = Some err \<longrightarrow>
      fst (retrieveNodeData e nd c m api w) = Some err \<and>
      new_calls w (snd (retrieveNodeData e nd c m api w)) =
        [summaryRequest nd c api, cadvisorRequest nd c api] \<and>
      containerRequest nd c api \<notin> set (new_calls w (snd (retrieveNodeData e nd c m api w))))"
proof (intro conjI impI)
  show "fst (retrieveNodeData e nd c m api w) =
     fst (fetch_until_error e (calls w) (planned_requests nd c api (masks w m)))"
    using retrieveNodeData_refines by blast
  show "calls (snd (retrieveNodeData e nd c m api w)) =
     snd (fetch_until_error e (calls w) (planned_requests nd c api (masks w m)))"
    using retrieveNodeData_refines by blast
next
  assume a: "Available m NodeStatsSummaryEndpoint w \<and> Available m NodeCadvisorEndpoint w \<and>
    get_raw e (calls w) (summaryRequest nd c api) = None \<and>
    get_raw e (calls w @ [summaryRequest nd c api]) (cadvisorRequest nd c api) = Some err"
  then have p: "fetch_until_error e (calls w) (planned_requests nd c api (masks w m)) =
      (Some err, calls w @ [summaryRequest nd c api, cadvisorRequest nd c api])"
    by (simp add: planned_requests_def Available_def)
  show "fst (retrieveNodeData e nd c m api w) = Some err"
    using retrieveNodeData_refines [of e nd c m api w] p by simp
  show n: "new_calls w (snd (retrieveNodeData e nd c m api w)) =
        [summaryRequest nd c api, cadvisorRequest nd c api]"
    using retrieveNodeData_refines [of e nd c m api w] p by (simp add: new_calls_def)
  show "containerRequest nd c api \<notin> set (new_calls w (snd (retrieveNodeData e nd c m api w)))"
    unfolding n
    by (simp add: containerRequest_def summaryRequest_def cadvisorRequest_def MethodGet_def MethodPost_def)
qed

text \<open>
  Witness: the direct fetch of \<open>node_B\<close> in the scenario, with a mask that holds all three
  endpoints. The cadvisor fetch is refused; the container endpoint is available and is
  not requested.
\<close>

theorem retrieveNodeData_first_error_aborts_witness:
  "Available 0 NodeContainerEndpoint world_full \<and>
   fst (retrieveNodeData env_scenario nd_B (NodeClient cfg_direct) 0
          (DirectNode (directNodeEndpoints ''10.0.0.2'' 10250)) world_full) =
     Some (Errorf ''connection refused'') \<and>
   calls (snd (retrieveNodeData env_scenario nd_B (NodeClient cfg_direct) 0
          (DirectNode (directNodeEndpoints ''10.0.0.2'' 10250)) world_full)) =
     [FetchCall (NodeClient cfg_direct) ''GET'' ''stats-summary-node-b'' ''/tmp/wd''
        ''https://10.0.0.2:10250/stats/summary'' None,
      FetchCall (NodeClient cfg_direct) ''GET'' ''stats-cadvisor_metrics-node-b'' ''/tmp/wd''
        ''https://10.0.0.2:10250/metrics/cadvisor'' None]"
  using retrieveNodeData_first_error_aborts [of env_scenario nd_B "NodeClient cfg_direct" 0
      "DirectNode (directNodeEndpoints ''10.0.0.2'' 10250)" world_full "Errorf ''connection refused''"]
  by (simp add: Errorf_def MethodGet_def MethodPost_def NodeStatsSummaryEndpoint_def
      NodeContainerEndpoint_def NodeCadvisorEndpoint_def issue_def logf_def GetRawEndPoint_def
      Available_def digit_char_def fmt_int_def proxyAPI_statsSummary_def
      proxyAPI_statsContainer_def proxyAPI_mCAdvisor_def directNode_statsSummary_def
      directNode_statsContainer_def directNode_mCAdvisor_def directNodeEndpoints_def
      summary_def container_def cadvisorMetrics_def direct_def retrieveNodeData_def
      nodeFetchData_of_def nodeHTTPClient_def summaryRequest_def cadvisorRequest_def
      containerRequest_def planned_requests_def new_calls_def node_A_def node_B_def node_C_def
      apiClient_def cfg0_def cfg_direct_def env_scenario_def containersRequestBody_def nd_B_def
      world_full_def fmt_nat.simps)

subsection \<open>The failure report of a cycle\<close>

lemma RetryOnConflict_numeral:
  "RetryOnConflict (numeral k) fn lastErr w =
     (case fn w of
        (Inr nodes, w1) \<Rightarrow> (Inr nodes, w1)
      | (Inl err, w1) \<Rightarrow>
          if IsConflict err then RetryOnConflict (pred_numeral k) fn (Some err) w1 else (Inl err, w1))"
  by (simp add: numeral_eq_Suc)

lemma downloadNodeData_loop_append:
  "downloadNodeData_loop e pfx config wd ns cr (xs @ ys) f w =
     (case downloadNodeData_loop e pfx config wd ns cr xs f w of
        (f1, w1) \<Rightarrow> downloadNodeData_loop e pfx config wd ns cr ys f1 w1)"
  by (induction xs arbitrary: f w) (auto split: prod.splits)

lemma downloadNodeData_proxy_other:
  "downloadNodeData_proxy e config n nd f w = (f', w') \<Longrightarrow> k \<noteq> Name n \<Longrightarrow> f' k = f k"
  by (auto simp: downloadNodeData_proxy_def split: prod.splits option.splits)

lemma downloadNodeData_proxy_keeps:
  "downloadNodeData_proxy e config n nd f w = (f', w') \<Longrightarrow> f k \<noteq> None \<Longrightarrow> f' k \<noteq> None"
  by (auto simp: downloadNodeData_proxy_def split: prod.splits option.splits)

text \<open>
  The body of the loop writes at most two entries, both under the name of its node,
  before it returns or ends with the proxy fetch.
\<close>

lemma downloadNodeData_node_cases:
  assumes "downloadNodeData_node e pfx config wd ns cr n f w = (f', w')"
  shows "\<exists>g w1. (g = f \<or> (\<exists>v. g = f(Name n \<mapsto> v)) \<or> (\<exists>v v'. g = f(Name n \<mapsto> v, Name n \<mapsto> v'))) \<and>
     ((f', w') = (g, w1) \<or>
      downloadNodeData_proxy e config n (nodeFetchData_of pfx config wd cr n) g w1 = (f', w'))"
  using assms unfolding downloadNodeData_node_def Let_def
  by (auto split: prod.splits option.splits bool.splits if_splits)

lemma downloadNodeData_node_other:
  assumes "downloadNodeData_node e pfx config wd ns cr n f w = (f', w')" and "k \<noteq> Name n"
  shows "f' k = f k"
proof -
  from downloadNodeData_node_cases [OF assms(1)] obtain g w1 where
    g: "g = f \<or> (\<exists>v. g = f(Name n \<mapsto> v)) \<or> (\<exists>v v'. g = f(Name n \<mapsto> v, Name n \<mapsto> v'))"
    and r: "(f', w') = (g, w1) \<or>
      downloadNodeData_proxy e config n (nodeFetchData_of pfx config wd cr n) g w1 = (f', w')"
    by blast
  from g assms(2) have "g k = f k" by auto
  moreover from r assms(2) have "f' k = g k"
    by (auto dest: downloadNodeData_proxy_other)
  ultimately show ?thesis by simp
qed

lemma downloadNodeData_node_keeps:
  assumes "downloadNodeData_node e pfx config wd ns cr n f w = (f', w')" and "f k \<noteq> None"
  shows "f' k \<noteq> None"
proof -
  from downloadNodeData_node_cases [OF assms(1)] obtain g w1 where
    g: "g = f \<or> (\<exists>v. g = f(Name n \<mapsto> v)) \<or> (\<exists>v v'. g = f(Name n \<mapsto> v, Name n \<mapsto> v'))"
    and r: "(f', w') = (g, w1) \<or>
      downloadNodeData_proxy e config n (nodeFetchData_of pfx config wd cr n) g w1 = (f', w')"
    by blast
  from g assms(2) have "g k \<noteq> None" by auto
  with r show ?thesis
    by (auto dest: downloadNodeData_proxy_keeps)
qed

text \<open>No entry of the report is ever removed, and a node only writes under its own name.\<close>

lemma downloadNodeData_loop_entries:
  "downloadNodeData_loop e pfx config wd ns cr nodes f w = (f', w') \<Longrightarrow>
     (\<forall>k. f k \<noteq> None \<longrightarrow> f' k \<noteq> None) \<and> (\<forall>k. k \<notin> Name ` set nodes \<longrightarrow> f' k = f k)"
proof (induction nodes arbitrary: f w)
  case Nil
  then show ?case by simp
next
  case (Cons n nodes)
  obtain f1 w1 where s: "downloadNodeData_node e pfx config wd ns cr n f w = (f1, w1)"
    by (cases "downloadNodeData_node e pfx config wd ns cr n f w")
  have "downloadNodeData_loop e pfx config wd ns cr nodes f1 w1 = (f', w')"
    using Cons.prems s by simp
  then have b: "(\<forall>k. f1 k \<noteq> None \<longrightarrow> f' k \<noteq> None) \<and> (\<forall>k. k \<notin> Name ` set nodes \<longrightarrow> f' k = f1 k)"
    by (rule Cons.IH)
  have "f' k \<noteq> None" if "f k \<noteq> None" for k
    using b downloadNodeData_node_keeps [OF s that] by simp
  moreover have "f' k = f k" if "k \<notin> Name ` set (n # nodes)" for k
  proof -
    from that have "k \<noteq> Name n" and "k \<notin> Name ` set nodes" by auto
    with b downloadNodeData_node_other [OF s] show ?thesis by simp
  qed
  ultimately show ?case by blast
qed

text \<open>
  The body of the loop for a node whose direct fetch failed: the entry of the node is the
  note of the direct failure when the proxy fetch succeeds, and the note of the proxy
  failure, written over it, when the proxy fetch fails.
\<close>

lemma downloadNodeData_node_direct_failed:
  assumes "nodeRetrievalMethod config = direct"
    and "Labels n ''eks.amazonaws.com/compute-type'' \<noteq> Some ''fargate''"
    and "directNodeFetch e ns config n (nodeFetchData_of pfx config wd cr n) w = (Some err, w2)"
    and "proxyNodeFetch e (nodeFetchData_of pfx config wd cr n) config w2 = (perr, w3)"
  shows "\<exists>g. downloadNodeData_node e pfx config wd ns cr n f w =
     (g(Name n \<mapsto>
          (case perr of
             None \<Rightarrow> Errorf (''direct connect failed (will attempt proxy): '' @ message err)
           | Some perr' \<Rightarrow> Errorf (''proxy connect failed: '' @ message perr'))), w3)"
proof (cases perr)
  case None
  with assms show ?thesis
    by (auto simp: downloadNodeData_node_def downloadNodeData_proxy_def Let_def isFargateNode_not_labelled)
next
  case (Some perr')
  with assms show ?thesis
    by (auto simp: downloadNodeData_node_def downloadNodeData_proxy_def Let_def isFargateNode_not_labelled
        intro: exI [of _ f])
qed

text \<open>
  C2. The claim: in direct mode, a node that is not on Fargate, whose direct fetch fails
  and whose proxy fetch then succeeds, does not appear in the report. The code records
  the direct failure before the proxy fetch ("make note of the error and fall through to
  proxy") and removes no entry afterwards. In the scenario the direct fetch of \<open>node_B\<close>
  fails, its proxy fetch succeeds, and the report of the cycle is the one entry of
  \<open>node_B\<close>.
\<close>

theorem recovered_node_is_reported:
  "nodeRetrievalMethod cfg_direct = direct \<and>
   fst (isFargateNode node_B world_at_B) = False \<and>
   fst (directNodeFetch env_scenario cns0 cfg_direct node_B nd_B world_at_B) =
     Some (Errorf ''connection refused'') \<and>
   fst (proxyNodeFetch env_scenario nd_B cfg_direct
          (snd (directNodeFetch env_scenario cns0 cfg_direct node_B nd_B world_at_B))) = None \<and>
   (case fst (fst (downloadNodeData env_scenario ''stats'' cfg_direct ''/tmp/wd'' cns0 world0)) of
      None \<Rightarrow> False
    | Some report \<Rightarrow>
        ''node-b'' \<in> dom report \<and> dom report = {''node-b''} \<and>
        report ''node-b'' =
          Some (Errorf ''direct connect failed (will attempt proxy): connection refused''))"
  by (simp add: Errorf_def NodeReady_def NodeInternalIP_def MethodGet_def MethodPost_def
      NodeStatsSummaryEndpoint_def NodeContainerEndpoint_def NodeCadvisorEndpoint_def issue_def
      logf_def List_nodes_def GetRawEndPoint_def Available_def NewClientsetNodeSource_def
      getNodeCondition_def GetReadyNodes_def NodeAddress_def digit_char_def fmt_int_def
      proxyAPI_statsSummary_def proxyAPI_statsContainer_def proxyAPI_mCAdvisor_def
      proxyEndpoints_def directNode_statsSummary_def directNode_statsContainer_def
      directNode_mCAdvisor_def directNodeEndpoints_def summary_def container_def
      cadvisorMetrics_def direct_def retrieveNodeData_def directNodeFetch_def
      proxyNodeFetch_def isFargateNode_def DefaultBackoff_Steps_def buildContainersRequest_def
      downloadNodeData_proxy_def nodeFetchData_of_def downloadNodeData_node_def
      downloadNodeData_def nodeHTTPClient_def node_A_def node_B_def node_C_def apiClient_def
      cfg0_def cfg_direct_def world0_def cns0_def env_scenario_def containersRequestBody_def
      nd_B_def world_at_B_def fmt_nat.simps RetryOnConflict_numeral)

text \<open>
  C2 as amended: such a node appears in the report of the cycle, and unless a later node
  of the listing has the same name its entry is the note "direct connect failed (will
  attempt proxy): " followed by the error of the direct fetch. When the proxy fetch fails
  as well, the entry is instead "proxy connect failed: " followed by the error of the
  proxy fetch. No entry is removed: every name that had an entry when the loop came to
  the node has one in the report. The hypotheses name the place of the node in the
  listing (\<open>pre @ n # post\<close>), the report \<open>f1\<close> and the world \<open>w1\<close> the loop has reached
  when it comes to the node, and the two fetches there, \<open>perr\<close> being the result of the
  proxy fetch.
\<close>

theorem direct_failure_note_stays:
  assumes mode: "nodeRetrievalMethod config = direct"
    and nf: "Labels n ''eks.amazonaws.com/compute-type'' \<noteq> Some ''fargate''"
    and listing: "RetryOnConflict DefaultBackoff_Steps (GetReadyNodes e ns) None w = (Inr (pre @ n # post), w0)"
    and body: "buildContainersRequest = Inr cr"
    and before: "downloadNodeData_loop e pfx config wd ns cr pre Map.empty w0 = (f1, w1)"
    and dfail: "directNodeFetch e ns config n (nodeFetchData_of pfx config wd cr n) w1 = (Some err, w2)"
    and pres: "proxyNodeFetch e (nodeFetchData_of pfx config wd cr n) config w2 = (perr, w3)"
  shows "snd (fst (downloadNodeData e pfx config wd ns w)) = None \<and>
     (case fst (fst (downloadNodeData e pfx config wd ns w)) of
        None \<Rightarrow> False
      | Some report \<Rightarrow>
          Name n \<in> dom report \<and>
          dom f1 \<subseteq> dom report \<and>
          (Name n \<notin> Name ` set post \<longrightarrow>
             report (Name n) =
               Some (case perr of
                       None \<Rightarrow> Errorf (''direct connect failed (will attempt proxy): '' @ message err)
                     | Some perr' \<Rightarrow> Errorf (''proxy connect failed: '' @ message perr'))))"
proof -
  define msg where "msg =
    (case perr of
       None \<Rightarrow> Errorf (''direct connect failed (will attempt proxy): '' @ message err)
     | Some perr' \<Rightarrow> Errorf (''proxy connect failed: '' @ message perr'))"
  obtain f2 where node: "downloadNodeData_node e pfx config wd ns cr n f1 w1 = (f2(Name n \<mapsto> msg), w3)"
    using downloadNodeData_node_direct_failed [OF mode nf dfail pres] unfolding msg_def by blast
  obtain report w4 where rest:
    "downloadNodeData_loop e pfx config wd ns cr post (f2(Name n \<mapsto> msg)) w3 = (report, w4)"
    by (cases "downloadNodeData_loop e pfx config wd ns cr post (f2(Name n \<mapsto> msg)) w3")
  have whole: "downloadNodeData_loop e pfx config wd ns cr (pre @ n # post) Map.empty w0 = (report, w4)"
    by (simp add: downloadNodeData_loop_append before node rest)
  have res: "downloadNodeData e pfx config wd ns w = ((Some report, None), w4)"
    by (simp add: downloadNodeData_def listing body whole)
  have keep: "(\<forall>k. (f2(Name n \<mapsto> msg)) k \<noteq> None \<longrightarrow> report k \<noteq> None) \<and>
      (\<forall>k. k \<notin> Name ` set post \<longrightarrow> report k = (f2(Name n \<mapsto> msg)) k)"
    using rest by (rule downloadNodeData_loop_entries)
  then have "report (Name n) \<noteq> None" by simp
  then have here: "Name n \<in> dom report" by auto
  have "report k \<noteq> None" if "f1 k \<noteq> None" for k
  proof -
    from downloadNodeData_node_keeps [OF node that] have "(f2(Name n \<mapsto> msg)) k \<noteq> None" .
    with keep show ?thesis by blast
  qed
  then have earlier: "dom f1 \<subseteq> dom report" by auto
  have entry: "Name n \<notin> Name ` set post \<longrightarrow> report (Name n) = Some msg"
    using keep by simp
  from here earlier entry show ?thesis
    unfolding msg_def by (simp add: res)
qed

text \<open>
  Witness: \<open>node_B\<close> between \<open>node_A\<close> and \<open>node_C\<close>, in the scenario, where its proxy fetch
  succeeds, and in the scenario with the proxy out of reach, where it fails.
\<close>

theorem direct_failure_note_stays_witness:
  "snd (fst (downloadNodeData env_scenario ''stats'' cfg_direct ''/tmp/wd'' cns0 world0)) = None \<and>
   (case fst (fst (downloadNodeData env_scenario ''stats'' cfg_direct ''/tmp/wd'' cns0 world0)) of
      None \<Rightarrow> False
    | Some report \<Rightarrow>
        report ''node-b'' =
          Some (Errorf ''direct connect failed (will attempt proxy): connection refused'')) \<and>
   snd (fst (downloadNodeData env_outage ''stats'' cfg_direct ''/tmp/wd'' cns0 world0)) = None \<and>
   (case fst (fst (downloadNodeData env_outage ''stats'' cfg_direct ''/tmp/wd'' cns0 world0)) of
      None \<Rightarrow> False
    | Some report \<Rightarrow>
        report ''node-b'' = Some (Errorf ''proxy connect failed: context deadline exceeded''))"
proof -
  have mode: "nodeRetrievalMethod cfg_direct = direct"
    by (simp add: cfg_direct_def)
  have nf: "Labels node_B ''eks.amazonaws.com/compute-type'' \<noteq> Some ''fargate''"
    by (simp add: node_B_def)
  have body: "buildContainersRequest = Inr containersRequestBody"
    by (simp add: buildContainersRequest_def containersRequestBody_def)
  have post: "Name node_B \<notin> Name ` set [node_C]"
    by (simp add: node_B_def node_C_def)
  have name: "Name node_B = ''node-b''"
    by (simp add: node_B_def)
  have recovered: "snd (fst (downloadNodeData env_scenario ''stats'' cfg_direct ''/tmp/wd'' cns0 world0)) = None \<and>
     (case fst (fst (downloadNodeData env_scenario ''stats'' cfg_direct ''/tmp/wd'' cns0 world0)) of
        None \<Rightarrow> False
      | Some report \<Rightarrow>
          report ''node-b'' = Some (Errorf ''direct connect failed (will attempt proxy): connection refused''))"
  proof -
    have listing: "RetryOnConflict DefaultBackoff_Steps (GetReadyNodes env_scenario cns0) None world0 =
        (Inr ([node_A] @ node_B # [node_C]), snd (GetReadyNodes env_scenario cns0 world0))"
      by (simp add: DefaultBackoff_Steps_def eval_nat_numeral GetReadyNodes_def List_nodes_def
          env_scenario_def getNodeCondition_def NodeReady_def node_A_def node_B_def node_C_def
          logf_def issue_def)
    have before: "downloadNodeData_loop env_scenario ''stats'' cfg_direct ''/tmp/wd'' cns0 containersRequestBody
        [node_A] Map.empty (snd (GetReadyNodes env_scenario cns0 world0)) =
        (fst (downloadNodeData_loop env_scenario ''stats'' cfg_direct ''/tmp/wd'' cns0 containersRequestBody
           [node_A] Map.empty (snd (GetReadyNodes env_scenario cns0 world0))), world_at_B)"
      by (simp add: world_at_B_def)
    have dfail: "directNodeFetch env_scenario cns0 cfg_direct node_B
        (nodeFetchData_of ''stats'' cfg_direct ''/tmp/wd'' containersRequestBody node_B) world_at_B =
        (Some (Errorf ''connection refused''),
         snd (directNodeFetch env_scenario cns0 cfg_direct node_B nd_B world_at_B))"
      by (simp add: Errorf_def NodeReady_def NodeInternalIP_def MethodGet_def MethodPost_def
        NodeStatsSummaryEndpoint_def NodeContainerEndpoint_def NodeCadvisorEndpoint_def
        issue_def logf_def List_nodes_def GetRawEndPoint_def Available_def
        NewClientsetNodeSource_def getNodeCondition_def GetReadyNodes_def NodeAddress_def
        digit_char_def fmt_int_def proxyAPI_statsSummary_def proxyAPI_statsContainer_def
        proxyAPI_mCAdvisor_def proxyEndpoints_def directNode_statsSummary_def
        directNode_statsContainer_def directNode_mCAdvisor_def directNodeEndpoints_def
        summary_def container_def cadvisorMetrics_def direct_def retrieveNodeData_def
        directNodeFetch_def proxyNodeFetch_def isFargateNode_def downloadNodeData_proxy_def
        nodeFetchData_of_def downloadNodeData_node_def nodeHTTPClient_def node_A_def node_B_def
        node_C_def apiClient_def cfg0_def cfg_direct_def world0_def cns0_def env_scenario_def
        containersRequestBody_def nd_B_def world_at_B_def fmt_nat.simps)
    have pres: "proxyNodeFetch env_scenario
        (nodeFetchData_of ''stats'' cfg_direct ''/tmp/wd'' containersRequestBody node_B) cfg_direct
        (snd (directNodeFetch env_scenario cns0 cfg_direct node_B nd_B world_at_B)) =
        (None, snd (proxyNodeFetch env_scenario nd_B cfg_direct
           (snd (directNodeFetch env_scenario cns0 cfg_direct node_B nd_B world_at_B))))"
      by (simp add: Errorf_def NodeReady_def NodeInternalIP_def MethodGet_def MethodPost_def
        NodeStatsSummaryEndpoint_def NodeContainerEndpoint_def NodeCadvisorEndpoint_def
        issue_def logf_def List_nodes_def GetRawEndPoint_def Available_def
        NewClientsetNodeSource_def getNodeCondition_def GetReadyNodes_def NodeAddress_def
        digit_char_def fmt_int_def proxyAPI_statsSummary_def proxyAPI_statsContainer_def
        proxyAPI_mCAdvisor_def proxyEndpoints_def directNode_statsSummary_def
        directNode_statsContainer_def directNode_mCAdvisor_def directNodeEndpoints_def
        summary_def container_def cadvisorMetrics_def direct_def retrieveNodeData_def
        directNodeFetch_def proxyNodeFetch_def isFargateNode_def downloadNodeData_proxy_def
        nodeFetchData_of_def downloadNodeData_node_def nodeHTTPClient_def node_A_def node_B_def
        node_C_def apiClient_def cfg0_def cfg_direct_def world0_def cns0_def env_scenario_def
        containersRequestBody_def nd_B_def world_at_B_def fmt_nat.simps)
    show ?thesis
      using direct_failure_note_stays [OF mode nf listing body before dfail pres] post
      by (simp add: name Errorf_def split: option.splits)
  qed
  have lost: "snd (fst (downloadNodeData env_outage ''stats'' cfg_direct ''/tmp/wd'' cns0 world0)) = None \<and>
     (case fst (fst (downloadNodeData env_outage ''stats'' cfg_direct ''/tmp/wd'' cns0 world0)) of
        None \<Rightarrow> False
      | Some report \<Rightarrow>
          report ''node-b'' = Some (Errorf ''proxy connect failed: context deadline exceeded''))"
  proof -
    have listing: "RetryOnConflict DefaultBackoff_Steps (GetReadyNodes env_outage cns0) None world0 =
        (Inr ([node_A] @ node_B # [node_C]), snd (GetReadyNodes env_outage cns0 world0))"
      by (simp add: DefaultBackoff_Steps_def eval_nat_numeral GetReadyNodes_def List_nodes_def
          env_outage_def getNodeCondition_def NodeReady_def node_A_def node_B_def node_C_def
          logf_def issue_def)
    have before: "downloadNodeData_loop env_outage ''stats'' cfg_direct ''/tmp/wd'' cns0 containersRequestBody
        [node_A] Map.empty (snd (GetReadyNodes env_outage cns0 world0)) =
        (fst (downloadNodeData_loop env_outage ''stats'' cfg_direct ''/tmp/wd'' cns0 containersRequestBody
           [node_A] Map.empty (snd (GetReadyNodes env_outage cns0 world0))), world_at_B_outage)"
      by (simp add: world_at_B_outage_def)
    have dfail: "directNodeFetch env_outage cns0 cfg_direct node_B
        (nodeFetchData_of ''stats'' cfg_direct ''/tmp/wd'' containersRequestBody node_B) world_at_B_outage =
        (Some (Errorf ''connection refused''),
         snd (directNodeFetch env_outage cns0 cfg_direct node_B nd_B world_at_B_outage))"
      by (simp add: Errorf_def NodeReady_def NodeInternalIP_def MethodGet_def MethodPost_def
        NodeStatsSummaryEndpoint_def NodeContainerEndpoint_def NodeCadvisorEndpoint_def
        issue_def logf_def List_nodes_def GetRawEndPoint_def Available_def
        NewClientsetNodeSource_def getNodeCondition_def GetReadyNodes_def NodeAddress_def
        digit_char_def fmt_int_def proxyAPI_statsSummary_def proxyAPI_statsContainer_def
        proxyAPI_mCAdvisor_def proxyEndpoints_def directNode_statsSummary_def
        directNode_statsContainer_def directNode_mCAdvisor_def directNodeEndpoints_def
        summary_def container_def cadvisorMetrics_def direct_def retrieveNodeData_def
        directNodeFetch_def proxyNodeFetch_def isFargateNode_def downloadNodeData_proxy_def
        nodeFetchData_of_def downloadNodeData_node_def nodeHTTPClient_def node_A_def node_B_def
        node_C_def apiClient_def cfg0_def cfg_direct_def world0_def cns0_def env_outage_def
        containersRequestBody_def nd_B_def world_at_B_outage_def fmt_nat.simps)
    have pres: "proxyNodeFetch env_outage
        (nodeFetchData_of ''stats'' cfg_direct ''/tmp/wd'' containersRequestBody node_B) cfg_direct
        (snd (directNodeFetch env_outage cns0 cfg_direct node_B nd_B world_at_B_outage)) =
        (Some (Errorf ''context deadline exceeded''), snd (proxyNodeFetch env_outage nd_B cfg_direct
           (snd (directNodeFetch env_outage cns0 cfg_direct node_B nd_B world_at_B_outage))))"
      by (simp add: Errorf_def NodeReady_def NodeInternalIP_def MethodGet_def MethodPost_def
        NodeStatsSummaryEndpoint_def NodeContainerEndpoint_def NodeCadvisorEndpoint_def
        issue_def logf_def List_nodes_def GetRawEndPoint_def Available_def
        NewClientsetNodeSource_def getNodeCondition_def GetReadyNodes_def NodeAddress_def
        digit_char_def fmt_int_def proxyAPI_statsSummary_def proxyAPI_statsContainer_def
        proxyAPI_mCAdvisor_def proxyEndpoints_def directNode_statsSummary_def
        directNode_statsContainer_def directNode_mCAdvisor_def directNodeEndpoints_def
        summary_def container_def cadvisorMetrics_def direct_def retrieveNodeData_def
        directNodeFetch_def proxyNodeFetch_def isFargateNode_def downloadNodeData_proxy_def
        nodeFetchData_of_def downloadNodeData_node_def nodeHTTPClient_def node_A_def node_B_def
        node_C_def apiClient_def cfg0_def cfg_direct_def world0_def cns0_def env_outage_def
        containersRequestBody_def nd_B_def world_at_B_outage_def fmt_nat.simps)
    show ?thesis
      using direct_failure_note_stays [OF mode nf listing body before dfail pres] post
      by (simp add: name Errorf_def split: option.splits)
  qed
  from recovered lost show ?thesis
    by simp
qed

subsection \<open>Claims about the connectivity prober\<close>

lemma masks_SetAvailable:
  "masks (SetAvailable m ep b w) = (masks w)(m := (if b then insert ep (masks w m) else masks w m - {ep}))"
  by (simp add: SetAvailable_def)

lemma endpoints_distinct [simp]:
  "NodeStatsSummaryEndpoint \<noteq> NodeCadvisorEndpoint" "NodeCadvisorEndpoint \<noteq> NodeStatsSummaryEndpoint"
  "NodeStatsSummaryEndpoint \<noteq> NodeContainerEndpoint" "NodeContainerEndpoint \<noteq> NodeStatsSummaryEndpoint"
  "NodeCadvisorEndpoint \<noteq> NodeContainerEndpoint" "NodeContainerEndpoint \<noteq> NodeCadvisorEndpoint"
  by (simp_all add: NodeStatsSummaryEndpoint_def NodeCadvisorEndpoint_def NodeContainerEndpoint_def)

lemma verify_RBAC_roles_mentioned:
  "sublist ''verify RBAC roles'' ''unable to retrieve node metrics. Please verify RBAC roles: <nil>''"
  by (simp add: sublist_Cons_right)

text \<open>
  C3. The three probes of \<^verbatim>\<open>testNodeConn\<close> are \<open>p1\<close> (summary), \<open>p2\<close> (cadvisor) and \<open>p3\<close>
  (container), and \<open>r1\<close>, \<open>r2\<close>, \<open>r3\<close> are the answers of the environment at the moment each
  is issued: reachability and transport error. A transport error is returned at once
  with success false, and no later probe is issued. With no transport error, success is
  \<open>r1\<close> reachable and (\<open>r2\<close> reachable or \<open>r3\<close> reachable) when container statistics are
  configured, and \<open>r1\<close> and \<open>r2\<close> reachable when they are not, in which case the container
  endpoint is not probed. Each answer read is recorded in the mask.
\<close>

theorem testNodeConn_rule:
  "let tok = BearerToken config;
       p1 = ProbeCall client sumURL MethodGet tok;
       p2 = ProbeCall client cadURL MethodGet tok;
       p3 = ProbeCall client contURL MethodPost tok;
       r1 = test_conn e (calls w) p1;
       r2 = test_conn e (calls w @ [p1]) p2;
       r3 = test_conn e (calls w @ [p1, p2]) p3;
       res = testNodeConn e config client m sumURL contURL cadURL w;
       success = fst (fst res);
       err = snd (fst res);
       w' = snd res
   in
     (snd r1 \<noteq> None \<longrightarrow>
        \<not> success \<and> err = snd r1 \<and> calls w' = calls w @ [p1] \<and> masks w' = masks w) \<and>
     (snd r1 = None \<and> snd r2 \<noteq> None \<longrightarrow>
        \<not> success \<and> err = snd r2 \<and> calls w' = calls w @ [p1, p2] \<and>
        Available m NodeStatsSummaryEndpoint w' = fst r1) \<and>
     (snd r1 = None \<and> snd r2 = None \<and> RetrieveStatsContainer config \<and> snd r3 \<noteq> None \<longrightarrow>
        \<not> success \<and> err = snd r3 \<and> calls w' = calls w @ [p1, p2, p3] \<and>
        Available m NodeStatsSummaryEndpoint w' = fst r1 \<and>
        Available m NodeCadvisorEndpoint w' = fst r2) \<and>
     (snd r1 = None \<and> snd r2 = None \<and> RetrieveStatsContainer config \<and> snd r3 = None \<longrightarrow>
        success = (fst r1 \<and> (fst r2 \<or> fst r3)) \<and> err = None \<and>
        calls w' = calls w @ [p1, p2, p3] \<and>
        Available m NodeStatsSummaryEndpoint w' = fst r1 \<and>
        Available m NodeCadvisorEndpoint w' = fst r2 \<and>
        Available m NodeContainerEndpoint w' = fst r3) \<and>
     (snd r1 = None \<and> snd r2 = None \<and> \<not> RetrieveStatsContainer config \<longrightarrow>
        success = (fst r1 \<and> fst r2) \<and> err = None \<and>
        calls w' = calls w @ [p1, p2] \<and>
        Available m NodeStatsSummaryEndpoint w' = fst r1 \<and>
        Available m NodeCadvisorEndpoint w' = fst r2)"
proof -
  obtain ns e1 where r1: "test_conn e (calls w) (ProbeCall client sumURL MethodGet (BearerToken config)) = (ns, e1)"
    by (cases "test_conn e (calls w) (ProbeCall client sumURL MethodGet (BearerToken config))")
  obtain cm e2 where r2: "test_conn e (calls w @ [ProbeCall client sumURL MethodGet (BearerToken config)])
      (ProbeCall client cadURL MethodGet (BearerToken config)) = (cm, e2)"
    by (cases "test_conn e (calls w @ [ProbeCall client sumURL MethodGet (BearerToken config)])
      (ProbeCall client cadURL MethodGet (BearerToken config))")
  obtain cs e3 where r3: "test_conn e (calls w @ [ProbeCall client sumURL MethodGet (BearerToken config),
        ProbeCall client cadURL MethodGet (BearerToken config)])
      (ProbeCall client contURL MethodPost (BearerToken config)) = (cs, e3)"
    by (cases "test_conn e (calls w @ [ProbeCall client sumURL MethodGet (BearerToken config),
        ProbeCall client cadURL MethodGet (BearerToken config)])
      (ProbeCall client contURL MethodPost (BearerToken config))")
  show ?thesis
    unfolding Let_def
    by (cases e1; cases e2; cases e3)
       (simp_all add: testNodeConn_def TestHTTPConnection_def r1 r2 r3 Available_def masks_SetAvailable Let_def)
qed

text \<open>
  Witness, on the proxy mask of an empty world, for the URLs \<^verbatim>\<open>https://kube/sum\<close>,
  \<^verbatim>\<open>https://kube/cont\<close> and \<^verbatim>\<open>https://kube/cad\<close>: the eight combinations of
  reachability with container statistics configured; summary and container reachable
  with container statistics not configured (no success, two probes, the container endpoint
  not recorded) and configured (both recorded, three probes); a transport error of each
  of the three probes; a container URL that would give a transport error, not probed
  when container statistics are not configured.
\<close>

theorem testNodeConn_rule_witness:
  "fst (testNodeConn (env_probes (reach True True True)) cfg_container apiClient 1
          ''https://kube/sum'' ''https://kube/cont'' ''https://kube/cad'' world_empty) = (True, None) \<and>
   fst (testNodeConn (env_probes (reach True True False)) cfg_container apiClient 1
          ''https://kube/sum'' ''https://kube/cont'' ''https://kube/cad'' world_empty) = (True, None) \<and>
   fst (testNodeConn (env_probes (reach True False True)) cfg_container apiClient 1
          ''https://kube/sum'' ''https://kube/cont'' ''https://kube/cad'' world_empty) = (True, None) \<and>
   fst (testNodeConn (env_probes (reach True False False)) cfg_container apiClient 1
          ''https://kube/sum'' ''https://kube/cont'' ''https://kube/cad'' world_empty) = (False, None) \<and>
   fst (testNodeConn (env_probes (reach False True True)) cfg_container apiClient 1
          ''https://kube/sum'' ''https://kube/cont'' ''https://kube/cad'' world_empty) = (False, None) \<and>
   fst (testNodeConn (env_probes (reach False True False)) cfg_container apiClient 1
          ''https://kube/sum'' ''https://kube/cont'' ''https://kube/cad'' world_empty) = (False, None) \<and>
   fst (testNodeConn (env_probes (reach False False True)) cfg_container apiClient 1
          ''https://kube/sum'' ''https://kube/cont'' ''https://kube/cad'' world_empty) = (False, None) \<and>
   fst (testNodeConn (env_probes (reach False False False)) cfg_container apiClient 1
          ''https://kube/sum'' ''https://kube/cont'' ''https://kube/cad'' world_empty) = (False, None) \<and>
   fst (testNodeConn (env_probes (reach True False True)) cfg0 apiClient 1
          ''https://kube/sum'' ''https://kube/cont'' ''https://kube/cad'' world_empty) = (False, None) \<and>
   calls (snd (testNodeConn (env_probes (reach True False True)) cfg0 apiClient 1
          ''https://kube/sum'' ''https://kube/cont'' ''https://kube/cad'' world_empty)) =
     [ProbeCall apiClient ''https://kube/sum'' ''GET'' ''token'',
      ProbeCall apiClient ''https://kube/cad'' ''GET'' ''token''] \<and>
   masks (snd (testNodeConn (env_probes (reach True False True)) cfg0 apiClient 1
          ''https://kube/sum'' ''https://kube/cont'' ''https://kube/cad'' world_empty)) 1 = {NodeStatsSummaryEndpoint} \<and>
   masks (snd (testNodeConn (env_probes (reach True False True)) cfg_container apiClient 1
          ''https://kube/sum'' ''https://kube/cont'' ''https://kube/cad'' world_empty)) 1 =
     {NodeContainerEndpoint, NodeStatsSummaryEndpoint} \<and>
   calls (snd (testNodeConn (env_probes (reach True False True)) cfg_container apiClient 1
          ''https://kube/sum'' ''https://kube/cont'' ''https://kube/cad'' world_empty)) =
     [ProbeCall apiClient ''https://kube/sum'' ''GET'' ''token'',
      ProbeCall apiClient ''https://kube/cad'' ''GET'' ''token'',
      ProbeCall apiClient ''https://kube/cont'' ''POST'' ''token''] \<and>
   testNodeConn (env_probes (resets ''https://kube/sum'')) cfg_container apiClient 1
          ''https://kube/sum'' ''https://kube/cont'' ''https://kube/cad'' world_empty =
     ((False, Some (Errorf ''connection reset by peer'')),
      world_empty\<lparr>calls := [ProbeCall apiClient ''https://kube/sum'' ''GET'' ''token'']\<rparr>) \<and>
   fst (testNodeConn (env_probes (resets ''https://kube/cad'')) cfg_container apiClient 1
          ''https://kube/sum'' ''https://kube/cont'' ''https://kube/cad'' world_empty) =
     (False, Some (Errorf ''connection reset by peer'')) \<and>
   calls (snd (testNodeConn (env_probes (resets ''https://kube/cad'')) cfg_container apiClient 1
          ''https://kube/sum'' ''https://kube/cont'' ''https://kube/cad'' world_empty)) =
     [ProbeCall apiClient ''https://kube/sum'' ''GET'' ''token'',
      ProbeCall apiClient ''https://kube/cad'' ''GET'' ''token''] \<and>
   fst (testNodeConn (env_probes (resets ''https://kube/cont'')) cfg_container apiClient 1
          ''https://kube/sum'' ''https://kube/cont'' ''https://kube/cad'' world_empty) =
     (False, Some (Errorf ''connection reset by peer'')) \<and>
   fst (testNodeConn (env_probes (resets ''https://kube/cont'')) cfg0 apiClient 1
          ''https://kube/sum'' ''https://kube/cont'' ''https://kube/cad'' world_empty) = (True, None)"
  using testNodeConn_rule [of cfg_container apiClient "''https://kube/sum''" "''https://kube/cad''"
      "''https://kube/cont''" "env_probes (reach True True True)" world_empty 1]
    testNodeConn_rule [of cfg_container apiClient "''https://kube/sum''" "''https://kube/cad''"
      "''https://kube/cont''" "env_probes (reach True True False)" world_empty 1]
    testNodeConn_rule [of cfg_container apiClient "''https://kube/sum''" "''https://kube/cad''"
      "''https://kube/cont''" "env_probes (reach True False True)" world_empty 1]
    testNodeConn_rule [of cfg_container apiClient "''https://kube/sum''" "''https://kube/cad''"
      "''https://kube/cont''" "env_probes (reach True False False)" world_empty 1]
    testNodeConn_rule [of cfg_container apiClient "''https://kube/sum''" "''https://kube/cad''"
      "''https://kube/cont''" "env_probes (reach False True True)" world_empty 1]
    testNodeConn_rule [of cfg_container apiClient "''https://kube/sum''" "''https://kube/cad''"
      "''https://kube/cont''" "env_probes (reach False True False)" world_empty 1]
    testNodeConn_rule [of cfg_container apiClient "''https://kube/sum''" "''https://kube/cad''"
      "''https://kube/cont''" "env_probes (reach False False True)" world_empty 1]
    testNodeConn_rule [of cfg_container apiClient "''https://kube/sum''" "''https://kube/cad''"
      "''https://kube/cont''" "env_probes (reach False False False)" world_empty 1]
    testNodeConn_rule [of cfg0 apiClient "''https://kube/sum''" "''https://kube/cad''"
      "''https://kube/cont''" "env_probes (reach True False True)" world_empty 1]
    testNodeConn_rule [of cfg_container apiClient "''https://kube/sum''" "''https://kube/cad''"
      "''https://kube/cont''" "env_probes (resets ''https://kube/sum'')" world_empty 1]
    testNodeConn_rule [of cfg_container apiClient "''https://kube/sum''" "''https://kube/cad''"
      "''https://kube/cont''" "env_probes (resets ''https://kube/cad'')" world_empty 1]
    testNodeConn_rule [of cfg_container apiClient "''https://kube/sum''" "''https://kube/cad''"
      "''https://kube/cont''" "env_probes (resets ''https://kube/cont'')" world_empty 1]
    testNodeConn_rule [of cfg0 apiClient "''https://kube/sum''" "''https://kube/cad''"
      "''https://kube/cont''" "env_probes (resets ''https://kube/cont'')" world_empty 1]
  by (simp add: Errorf_def MethodGet_def MethodPost_def NodeStatsSummaryEndpoint_def
      NodeContainerEndpoint_def NodeCadvisorEndpoint_def issue_def logf_def
      TestHTTPConnection_def SetAvailable_def Available_def testNodeConn_def node_A_def
      node_B_def apiClient_def cfg0_def world_empty_def env_probes_def reach_def resets_def
      cfg_container_def Let_def)

text \<open>
  C10. When container statistics are not configured, \<^verbatim>\<open>testNodeConn\<close> leaves the container
  entry of its mask as it was, present or absent: it writes the summary and the cadvisor
  entry only, and no other mask of the store.
\<close>

theorem testNodeConn_leaves_container_entry:
  "\<not> RetrieveStatsContainer config \<Longrightarrow>
     Available m NodeContainerEndpoint (snd (testNodeConn e config client m sumURL contURL cadURL w)) =
       Available m NodeContainerEndpoint w \<and>
     (\<forall>ep. ep \<noteq> NodeStatsSummaryEndpoint \<and> ep \<noteq> NodeCadvisorEndpoint \<longrightarrow>
        Available m ep (snd (testNodeConn e config client m sumURL contURL cadURL w)) = Available m ep w) \<and>
     (\<forall>m'. m' \<noteq> m \<longrightarrow>
        masks (snd (testNodeConn e config client m sumURL contURL cadURL w)) m' = masks w m')"
proof -
  assume a: "\<not> RetrieveStatsContainer config"
  obtain ns e1 where r1: "test_conn e (calls w) (ProbeCall client sumURL MethodGet (BearerToken config)) = (ns, e1)"
    by (cases "test_conn e (calls w) (ProbeCall client sumURL MethodGet (BearerToken config))")
  obtain cm e2 where r2: "test_conn e (calls w @ [ProbeCall client sumURL MethodGet (BearerToken config)])
      (ProbeCall client cadURL MethodGet (BearerToken config)) = (cm, e2)"
    by (cases "test_conn e (calls w @ [ProbeCall client sumURL MethodGet (BearerToken config)])
      (ProbeCall client cadURL MethodGet (BearerToken config))")
  show ?thesis
    by (cases e1; cases e2)
       (auto simp: a testNodeConn_def TestHTTPConnection_def r1 r2 Available_def masks_SetAvailable Let_def)
qed

text \<open>
  Witness: the mask holds the summary and the container endpoint, nothing is reachable
  and container statistics are not configured. After the probe the summary entry is gone
  and the container entry is still there.
\<close>

theorem testNodeConn_leaves_container_entry_witness:
  "\<not> RetrieveStatsContainer cfg0 \<and>
   Available 1 NodeContainerEndpoint world_container \<and>
   Available 1 NodeStatsSummaryEndpoint world_container \<and>
   Available 1 NodeContainerEndpoint
     (snd (testNodeConn (env_probes all_unreachable) cfg0 apiClient 1
             ''https://kube/sum'' ''https://kube/cont'' ''https://kube/cad'' world_container)) \<and>
   \<not> Available 1 NodeStatsSummaryEndpoint
     (snd (testNodeConn (env_probes all_unreachable) cfg0 apiClient 1
             ''https://kube/sum'' ''https://kube/cont'' ''https://kube/cad'' world_container)) \<and>
   masks (snd (testNodeConn (env_probes all_unreachable) cfg0 apiClient 1
             ''https://kube/sum'' ''https://kube/cont'' ''https://kube/cad'' world_container)) 1 =
     {NodeContainerEndpoint}"
proof -
  have h: "\<not> RetrieveStatsContainer cfg0"
    by (simp add: cfg0_def)
  show ?thesis
    using h testNodeConn_leaves_container_entry [OF h, of 1 "env_probes all_unreachable" apiClient
        "''https://kube/sum''" "''https://kube/cont''" "''https://kube/cad''" world_container]
    by (simp add: MethodGet_def MethodPost_def NodeStatsSummaryEndpoint_def NodeContainerEndpoint_def
        NodeCadvisorEndpoint_def issue_def logf_def TestHTTPConnection_def SetAvailable_def
        Available_def testNodeConn_def node_A_def node_B_def apiClient_def cfg0_def
        env_probes_def all_unreachable_def world_container_def)
qed

text \<open>
  C6. The claim: if the direct probe (when allowed) does not succeed and the proxy probe
  does not succeed either, the configuration returned has the mode unreachable and
  \<^verbatim>\<open>RetrieveNodeSummaries\<close> false, with the error "verify RBAC roles". A probe that ends
  with a transport error does not succeed, and \<^verbatim>\<open>ensureNodeSource\<close> returns that error
  at once (\<^verbatim>\<open>if err != nil { return config, err }\<close>), with the mode and the flag as they
  were. Here the listing gives \<open>node_A\<close> and \<open>node_B\<close>, direct connection is allowed, the
  direct probe finds nothing reachable and the proxy probe times out.
\<close>

theorem proxy_probe_error_leaves_mode:
  "fst (allowDirectConnect cfg_probing [node_A, node_B] (world_listed (env_probes proxy_times_out))) = True \<and>
   fst (probeDirect (env_probes proxy_times_out) cfg_probing ''10.0.0.1'' 10250
          (world_listed (env_probes proxy_times_out))) = (False, None) \<and>
   fst (probeProxy (env_probes proxy_times_out) cfg_probing node_A
          (snd (probeDirect (env_probes proxy_times_out) cfg_probing ''10.0.0.1'' 10250
                  (world_listed (env_probes proxy_times_out))))) =
     (False, Some (Errorf ''dial tcp 10.96.0.1:443: i/o timeout'')) \<and>
   (case ensureNodeSource (env_probes proxy_times_out) cfg0 world_empty of
      None \<Rightarrow> False
    | Some ((config, err), w) \<Rightarrow>
        nodeRetrievalMethod config \<noteq> unreachable \<and>
        nodeRetrievalMethod config = nodeRetrievalMethod cfg0 \<and>
        RetrieveNodeSummaries config \<and>
        err = Some (Errorf ''dial tcp 10.96.0.1:443: i/o timeout''))"
  by (simp add: Errorf_def NodeReady_def NodeInternalIP_def MethodGet_def MethodPost_def
      NodeStatsSummaryEndpoint_def NodeContainerEndpoint_def NodeCadvisorEndpoint_def issue_def
      logf_def List_nodes_def TestHTTPConnection_def SetAvailable_def
      NewClientsetNodeSource_def getNodeCondition_def GetReadyNodes_def NodeAddress_def
      digit_char_def fmt_int_def proxyAPI_statsSummary_def proxyAPI_statsContainer_def
      proxyAPI_mCAdvisor_def proxyEndpoints_def directNode_statsSummary_def
      directNode_statsContainer_def directNode_mCAdvisor_def directNodeEndpoints_def direct_def
      proxy_def unreachable_def isFargateNode_def allowDirectConnect_def testNodeConn_def
      nodeHTTPClient_def probeDirect_def probeProxy_def ensureNodeSource_proxy_def
      ensureNodeSource_def node_A_def node_B_def apiClient_def cfg0_def cns0_def
      world_empty_def env_probes_def proxy_times_out_def cfg_probing_def world_listed_def
      fmt_nat.simps)

text \<open>
  C6 as amended. \<open>config\<close> is the configuration with the node client set, the listing
  gives \<open>firstNode # rest\<close>, the address of the first node is resolved, and \<open>allow\<close> is the
  answer of \<^verbatim>\<open>allowDirectConnect\<close>.
  \<^item> When the direct probe is allowed and succeeds, the mode is direct, no error is
    returned, and the world returned is the one the direct probe left: the proxy probe
    is not performed.
  \<^item> When a probe returns a transport error, that error is returned with the
    configuration as it was.
  \<^item> When the direct probe (if allowed) and the proxy probe both end without a transport
    error and without success, the mode is unreachable, \<^verbatim>\<open>RetrieveNodeSummaries\<close> is
    false, and the error returned mentions "verify RBAC roles".
\<close>

theorem ensureNodeSource_outcomes:
  assumes listing: "GetReadyNodes e (NewClientsetNodeSource (Clientset config0)) w = (Inr (firstNode # rest), w1)"
    and addr: "NodeAddress (NewClientsetNodeSource (Clientset config0)) firstNode = Inr (i, p)"
    and config: "config = config0\<lparr>NodeClient :=
        NewClient nodeHTTPClient True (BearerToken config0) (CollectionRetryLimit config0)\<rparr>"
    and allow: "allowDirectConnect config (firstNode # rest) w1 = (allow, w2)"
  shows
    "(allow \<and> probeDirect e config i p w2 = ((True, None), w3) \<longrightarrow>
        ensureNodeSource e config0 w = Some ((config\<lparr>nodeRetrievalMethod := direct\<rparr>, None), w3)) \<and>
     (allow \<and> probeDirect e config i p w2 = ((s, Some err), w3) \<longrightarrow>
        ensureNodeSource e config0 w = Some ((config, Some err), w3)) \<and>
     ((if allow then probeDirect e config i p w2 = ((False, None), w3) else w3 = w2) \<and>
      probeProxy e config firstNode w3 = ((s, Some err), w4) \<longrightarrow>
        ensureNodeSource e config0 w = Some ((config, Some err), w4)) \<and>
     ((if allow then probeDirect e config i p w2 = ((False, None), w3) else w3 = w2) \<and>
      probeProxy e config firstNode w3 = ((False, None), w4) \<longrightarrow>
        ensureNodeSource e config0 w =
          Some ((config\<lparr>nodeRetrievalMethod := unreachable, RetrieveNodeSummaries := False\<rparr>,
                 Some (Errorf ''unable to retrieve node metrics. Please verify RBAC roles: <nil>'')), w4) \<and>
        sublist ''verify RBAC roles'' ''unable to retrieve node metrics. Please verify RBAC roles: <nil>'')"
  using listing addr allow unfolding config
  by (cases allow)
     (auto simp: ensureNodeSource_def ensureNodeSource_proxy_def Let_def verify_RBAC_roles_mentioned)

text \<open>
  Witness. With every endpoint reachable the direct probe succeeds, the mode is direct
  and the calls are the listing and the two direct probes. With nothing reachable both
  probes end without error and the mode is unreachable; the same when kube-proxy is
  forced, where the only probes are the two of the proxy. A transport error of the direct
  probe, and one of the proxy probe, is returned with the mode as it was.
\<close>

theorem ensureNodeSource_outcomes_witness:
  "(case ensureNodeSource (env_probes all_reachable) cfg0 world_empty of
      None \<Rightarrow> False
    | Some ((config, err), w) \<Rightarrow>
        nodeRetrievalMethod config = direct \<and> err = None \<and>
        calls w =
          [ListCall 0,
           ProbeCall nodeHTTPClient ''https://10.0.0.1:10250/stats/summary'' ''GET'' ''token'',
           ProbeCall nodeHTTPClient ''https://10.0.0.1:10250/metrics/cadvisor'' ''GET'' ''token'']) \<and>
   (case ensureNodeSource (env_probes all_unreachable) cfg0 world_empty of
      None \<Rightarrow> False
    | Some ((config, err), w) \<Rightarrow>
        nodeRetrievalMethod config = unreachable \<and> \<not> RetrieveNodeSummaries config \<and>
        err = Some (Errorf ''unable to retrieve node metrics. Please verify RBAC roles: <nil>'')) \<and>
   (case ensureNodeSource (env_probes all_unreachable) (cfg0\<lparr>ForceKubeProxy := True\<rparr>) world_empty of
      None \<Rightarrow> False
    | Some ((config, err), w) \<Rightarrow>
        nodeRetrievalMethod config = unreachable \<and> \<not> RetrieveNodeSummaries config \<and>
        err = Some (Errorf ''unable to retrieve node metrics. Please verify RBAC roles: <nil>'') \<and>
        calls w =
          [ListCall 0,
           ProbeCall apiClient ''https://kube/api/v1/nodes/node-a/proxy/stats/summary'' ''GET'' ''token'',
           ProbeCall apiClient ''https://kube/api/v1/nodes/node-a/proxy/metrics/cadvisor'' ''GET'' ''token'']) \<and>
   (case ensureNodeSource (env_probes (resets ''https://10.0.0.1:10250/stats/summary'')) cfg0 world_empty of
      None \<Rightarrow> False
    | Some ((config, err), w) \<Rightarrow>
        nodeRetrievalMethod config = [] \<and> RetrieveNodeSummaries config \<and>
        err = Some (Errorf ''connection reset by peer'')) \<and>
   (case ensureNodeSource (env_probes proxy_times_out) cfg0 world_empty of
      None \<Rightarrow> False
    | Some ((config, err), w) \<Rightarrow>
        nodeRetrievalMethod config = [] \<and> RetrieveNodeSummaries config \<and>
        err = Some (Errorf ''dial tcp 10.96.0.1:443: i/o timeout''))"
proof -
  let ?forced = "cfg0\<lparr>ForceKubeProxy := True\<rparr>"
  let ?forced_probing = "cfg_probing\<lparr>ForceKubeProxy := True\<rparr>"
  let ?dsum = "''https://10.0.0.1:10250/stats/summary''"
  have listing: "GetReadyNodes (env_probes answer) (NewClientsetNodeSource (Clientset cfg0)) world_empty =
      (Inr (node_A # [node_B]), world_listed (env_probes answer))" for answer
    by (simp add: Errorf_def NodeReady_def issue_def logf_def List_nodes_def NewClientsetNodeSource_def
        getNodeCondition_def GetReadyNodes_def node_A_def node_B_def apiClient_def cfg0_def
        cns0_def world_empty_def env_probes_def world_listed_def)
  have listing': "GetReadyNodes (env_probes answer) (NewClientsetNodeSource (Clientset ?forced)) world_empty =
      (Inr (node_A # [node_B]), world_listed (env_probes answer))" for answer
    by (simp add: Errorf_def NodeReady_def issue_def logf_def List_nodes_def NewClientsetNodeSource_def
        getNodeCondition_def GetReadyNodes_def nodeHTTPClient_def node_A_def node_B_def
        apiClient_def cfg0_def cns0_def world_empty_def env_probes_def cfg_probing_def
        world_listed_def)
  have addr: "NodeAddress (NewClientsetNodeSource (Clientset cfg0)) node_A = Inr (''10.0.0.1'', 10250)"
    by (simp add: Errorf_def NodeInternalIP_def NewClientsetNodeSource_def NodeAddress_def node_A_def
        apiClient_def cfg0_def)
  have addr': "NodeAddress (NewClientsetNodeSource (Clientset ?forced)) node_A = Inr (''10.0.0.1'', 10250)"
    by (simp add: Errorf_def NodeInternalIP_def NewClientsetNodeSource_def NodeAddress_def
        nodeHTTPClient_def node_A_def apiClient_def cfg0_def cfg_probing_def)
  have config: "cfg_probing = cfg0\<lparr>NodeClient :=
      NewClient nodeHTTPClient True (BearerToken cfg0) (CollectionRetryLimit cfg0)\<rparr>"
    by (simp add: cfg_probing_def cfg0_def)
  have config': "?forced_probing = ?forced\<lparr>NodeClient :=
      NewClient nodeHTTPClient True (BearerToken ?forced) (CollectionRetryLimit ?forced)\<rparr>"
    by (simp add: cfg_probing_def cfg0_def)
  have allow: "allowDirectConnect cfg_probing (node_A # [node_B]) (world_listed (env_probes answer)) =
      (True, world_listed (env_probes answer))" for answer
    by (simp add: Errorf_def NodeReady_def issue_def logf_def List_nodes_def NewClientsetNodeSource_def
        getNodeCondition_def GetReadyNodes_def isFargateNode_def allowDirectConnect_def
        nodeHTTPClient_def node_A_def node_B_def apiClient_def cfg0_def cns0_def
        world_empty_def env_probes_def cfg_probing_def world_listed_def)
  have allow': "allowDirectConnect ?forced_probing (node_A # [node_B]) (world_listed (env_probes answer)) =
      (False, logf ForceKubeProxySet (world_listed (env_probes answer)))" for answer
    by (simp add: Errorf_def NodeReady_def issue_def logf_def List_nodes_def NewClientsetNodeSource_def
        getNodeCondition_def GetReadyNodes_def isFargateNode_def allowDirectConnect_def
        nodeHTTPClient_def node_A_def node_B_def apiClient_def cfg0_def cns0_def
        world_empty_def env_probes_def cfg_probing_def world_listed_def)
  have d: "probeDirect (env_probes answer) cfg_probing ''10.0.0.1'' 10250 (world_listed (env_probes answer)) =
      (fst (probeDirect (env_probes answer) cfg_probing ''10.0.0.1'' 10250 (world_listed (env_probes answer))),
       snd (probeDirect (env_probes answer) cfg_probing ''10.0.0.1'' 10250 (world_listed (env_probes answer))))"
    for answer
    by simp
  have d1: "fst (probeDirect (env_probes all_reachable) cfg_probing ''10.0.0.1'' 10250
      (world_listed (env_probes all_reachable))) = (True, None)"
    by (simp add: Errorf_def NodeReady_def MethodGet_def MethodPost_def NodeStatsSummaryEndpoint_def
        NodeContainerEndpoint_def NodeCadvisorEndpoint_def issue_def logf_def List_nodes_def
        TestHTTPConnection_def SetAvailable_def NewClientsetNodeSource_def getNodeCondition_def
        GetReadyNodes_def digit_char_def fmt_int_def directNode_statsSummary_def
        directNode_statsContainer_def directNode_mCAdvisor_def directNodeEndpoints_def
        testNodeConn_def nodeHTTPClient_def probeDirect_def node_A_def node_B_def apiClient_def
        cfg0_def cns0_def world_empty_def env_probes_def all_reachable_def cfg_probing_def
        world_listed_def fmt_nat.simps)
  have d2: "fst (probeDirect (env_probes all_unreachable) cfg_probing ''10.0.0.1'' 10250
      (world_listed (env_probes all_unreachable))) = (False, None)"
    by (simp add: Errorf_def NodeReady_def MethodGet_def MethodPost_def NodeStatsSummaryEndpoint_def
        NodeContainerEndpoint_def NodeCadvisorEndpoint_def issue_def logf_def List_nodes_def
        TestHTTPConnection_def SetAvailable_def NewClientsetNodeSource_def getNodeCondition_def
        GetReadyNodes_def digit_char_def fmt_int_def directNode_statsSummary_def
        directNode_statsContainer_def directNode_mCAdvisor_def directNodeEndpoints_def
        testNodeConn_def nodeHTTPClient_def probeDirect_def node_A_def node_B_def apiClient_def
        cfg0_def cns0_def world_empty_def env_probes_def all_unreachable_def cfg_probing_def
        world_listed_def fmt_nat.simps)
  have d4: "fst (probeDirect (env_probes (resets ?dsum)) cfg_probing ''10.0.0.1'' 10250
      (world_listed (env_probes (resets ?dsum)))) = (False, Some (Errorf ''connection reset by peer''))"
    by (simp add: Errorf_def NodeReady_def MethodGet_def MethodPost_def NodeStatsSummaryEndpoint_def
        NodeContainerEndpoint_def NodeCadvisorEndpoint_def issue_def logf_def List_nodes_def
        TestHTTPConnection_def SetAvailable_def NewClientsetNodeSource_def getNodeCondition_def
        GetReadyNodes_def digit_char_def fmt_int_def directNode_statsSummary_def
        directNode_statsContainer_def directNode_mCAdvisor_def directNodeEndpoints_def
        testNodeConn_def nodeHTTPClient_def probeDirect_def node_A_def node_B_def apiClient_def
        cfg0_def cns0_def world_empty_def env_probes_def resets_def cfg_probing_def
        world_listed_def fmt_nat.simps)
  have d5: "fst (probeDirect (env_probes proxy_times_out) cfg_probing ''10.0.0.1'' 10250
      (world_listed (env_probes proxy_times_out))) = (False, None)"
    by (simp add: Errorf_def NodeReady_def MethodGet_def MethodPost_def NodeStatsSummaryEndpoint_def
        NodeContainerEndpoint_def NodeCadvisorEndpoint_def issue_def logf_def List_nodes_def
        TestHTTPConnection_def SetAvailable_def NewClientsetNodeSource_def getNodeCondition_def
        GetReadyNodes_def digit_char_def fmt_int_def directNode_statsSummary_def
        directNode_statsContainer_def directNode_mCAdvisor_def directNodeEndpoints_def
        testNodeConn_def nodeHTTPClient_def probeDirect_def node_A_def node_B_def apiClient_def
        cfg0_def cns0_def world_empty_def env_probes_def proxy_times_out_def cfg_probing_def
        world_listed_def fmt_nat.simps)
  have p: "probeProxy (env_probes answer) config node_A w = (fst (probeProxy (env_probes answer) config node_A w),
      snd (probeProxy (env_probes answer) config node_A w))" for answer config w
    by simp
  have p2: "fst (probeProxy (env_probes all_unreachable) cfg_probing node_A
      (snd (probeDirect (env_probes all_unreachable) cfg_probing ''10.0.0.1'' 10250
         (world_listed (env_probes all_unreachable))))) = (False, None)"
    by (simp add: Errorf_def NodeReady_def MethodGet_def MethodPost_def NodeStatsSummaryEndpoint_def
        NodeContainerEndpoint_def NodeCadvisorEndpoint_def issue_def logf_def List_nodes_def
        TestHTTPConnection_def SetAvailable_def NewClientsetNodeSource_def getNodeCondition_def
        GetReadyNodes_def digit_char_def fmt_int_def proxyAPI_statsSummary_def
        proxyAPI_statsContainer_def proxyAPI_mCAdvisor_def proxyEndpoints_def
        directNode_statsSummary_def directNode_statsContainer_def directNode_mCAdvisor_def
        directNodeEndpoints_def testNodeConn_def nodeHTTPClient_def probeDirect_def
        probeProxy_def node_A_def node_B_def apiClient_def cfg0_def cns0_def world_empty_def
        env_probes_def all_unreachable_def cfg_probing_def world_listed_def fmt_nat.simps)
  have p3: "fst (probeProxy (env_probes all_unreachable) ?forced_probing node_A
      (logf ForceKubeProxySet (world_listed (env_probes all_unreachable)))) = (False, None)"
    by (simp add: Errorf_def NodeReady_def MethodGet_def MethodPost_def NodeStatsSummaryEndpoint_def
        NodeContainerEndpoint_def NodeCadvisorEndpoint_def issue_def logf_def List_nodes_def
        TestHTTPConnection_def SetAvailable_def NewClientsetNodeSource_def getNodeCondition_def
        GetReadyNodes_def proxyAPI_statsSummary_def proxyAPI_statsContainer_def
        proxyAPI_mCAdvisor_def proxyEndpoints_def testNodeConn_def nodeHTTPClient_def
        probeProxy_def node_A_def node_B_def apiClient_def cfg0_def cns0_def world_empty_def
        env_probes_def all_unreachable_def cfg_probing_def world_listed_def)
  have p5: "fst (probeProxy (env_probes proxy_times_out) cfg_probing node_A
      (snd (probeDirect (env_probes proxy_times_out) cfg_probing ''10.0.0.1'' 10250
         (world_listed (env_probes proxy_times_out))))) =
      (False, Some (Errorf ''dial tcp 10.96.0.1:443: i/o timeout''))"
    by (simp add: Errorf_def NodeReady_def MethodGet_def MethodPost_def NodeStatsSummaryEndpoint_def
        NodeContainerEndpoint_def NodeCadvisorEndpoint_def issue_def logf_def List_nodes_def
        TestHTTPConnection_def SetAvailable_def NewClientsetNodeSource_def getNodeCondition_def
        GetReadyNodes_def digit_char_def fmt_int_def proxyAPI_statsSummary_def
        proxyAPI_statsContainer_def proxyAPI_mCAdvisor_def proxyEndpoints_def
        directNode_statsSummary_def directNode_statsContainer_def directNode_mCAdvisor_def
        directNodeEndpoints_def testNodeConn_def nodeHTTPClient_def probeDirect_def
        probeProxy_def node_A_def node_B_def apiClient_def cfg0_def cns0_def world_empty_def
        env_probes_def proxy_times_out_def cfg_probing_def world_listed_def fmt_nat.simps)
  have c1: "calls (snd (probeDirect (env_probes all_reachable) cfg_probing ''10.0.0.1'' 10250
         (world_listed (env_probes all_reachable)))) =
      [ListCall 0,
       ProbeCall nodeHTTPClient ''https://10.0.0.1:10250/stats/summary'' ''GET'' ''token'',
       ProbeCall nodeHTTPClient ''https://10.0.0.1:10250/metrics/cadvisor'' ''GET'' ''token'']"
    by (simp add: Errorf_def NodeReady_def MethodGet_def MethodPost_def NodeStatsSummaryEndpoint_def
        NodeContainerEndpoint_def NodeCadvisorEndpoint_def issue_def logf_def List_nodes_def
        TestHTTPConnection_def SetAvailable_def NewClientsetNodeSource_def getNodeCondition_def
        GetReadyNodes_def digit_char_def fmt_int_def directNode_statsSummary_def
        directNode_statsContainer_def directNode_mCAdvisor_def directNodeEndpoints_def
        testNodeConn_def nodeHTTPClient_def probeDirect_def node_A_def node_B_def apiClient_def
        cfg0_def cns0_def world_empty_def env_probes_def all_reachable_def cfg_probing_def
        world_listed_def fmt_nat.simps)
  have c3: "calls (snd (probeProxy (env_probes all_unreachable) ?forced_probing node_A
      (logf ForceKubeProxySet (world_listed (env_probes all_unreachable))))) =
      [ListCall 0,
       ProbeCall apiClient ''https://kube/api/v1/nodes/node-a/proxy/stats/summary'' ''GET'' ''token'',
       ProbeCall apiClient ''https://kube/api/v1/nodes/node-a/proxy/metrics/cadvisor'' ''GET'' ''token'']"
    by (simp add: Errorf_def NodeReady_def MethodGet_def MethodPost_def NodeStatsSummaryEndpoint_def
        NodeContainerEndpoint_def NodeCadvisorEndpoint_def issue_def logf_def List_nodes_def
        TestHTTPConnection_def SetAvailable_def NewClientsetNodeSource_def getNodeCondition_def
        GetReadyNodes_def proxyAPI_statsSummary_def proxyAPI_statsContainer_def
        proxyAPI_mCAdvisor_def proxyEndpoints_def testNodeConn_def nodeHTTPClient_def
        probeProxy_def node_A_def node_B_def apiClient_def cfg0_def cns0_def world_empty_def
        env_probes_def all_unreachable_def cfg_probing_def world_listed_def)
  have r1: "ensureNodeSource (env_probes all_reachable) cfg0 world_empty =
      Some ((cfg_probing\<lparr>nodeRetrievalMethod := direct\<rparr>, None),
            snd (probeDirect (env_probes all_reachable) cfg_probing ''10.0.0.1'' 10250
                   (world_listed (env_probes all_reachable))))"
    using ensureNodeSource_outcomes [OF listing addr config allow,
        of all_reachable
           "snd (probeDirect (env_probes all_reachable) cfg_probing ''10.0.0.1'' 10250
                  (world_listed (env_probes all_reachable)))"
           False "Errorf []" world_empty]
      d [of all_reachable] d1
    by simp
  have r2: "ensureNodeSource (env_probes all_unreachable) cfg0 world_empty =
      Some ((cfg_probing\<lparr>nodeRetrievalMethod := unreachable, RetrieveNodeSummaries := False\<rparr>,
             Some (Errorf ''unable to retrieve node metrics. Please verify RBAC roles: <nil>'')),
            snd (probeProxy (env_probes all_unreachable) cfg_probing node_A
              (snd (probeDirect (env_probes all_unreachable) cfg_probing ''10.0.0.1'' 10250
                 (world_listed (env_probes all_unreachable))))))"
    using ensureNodeSource_outcomes [OF listing addr config allow,
        of all_unreachable
           "snd (probeDirect (env_probes all_unreachable) cfg_probing ''10.0.0.1'' 10250
                  (world_listed (env_probes all_unreachable)))"
           False "Errorf []"
           "snd (probeProxy (env_probes all_unreachable) cfg_probing node_A
              (snd (probeDirect (env_probes all_unreachable) cfg_probing ''10.0.0.1'' 10250
                 (world_listed (env_probes all_unreachable)))))"]
      d [of all_unreachable] d2
      p [of all_unreachable cfg_probing
           "snd (probeDirect (env_probes all_unreachable) cfg_probing ''10.0.0.1'' 10250
                  (world_listed (env_probes all_unreachable)))"] p2
    by simp
  have r3: "ensureNodeSource (env_probes all_unreachable) ?forced world_empty =
      Some ((?forced_probing\<lparr>nodeRetrievalMethod := unreachable, RetrieveNodeSummaries := False\<rparr>,
             Some (Errorf ''unable to retrieve node metrics. Please verify RBAC roles: <nil>'')),
            snd (probeProxy (env_probes all_unreachable) ?forced_probing node_A
              (logf ForceKubeProxySet (world_listed (env_probes all_unreachable)))))"
    using ensureNodeSource_outcomes [OF listing' addr' config' allow',
        of all_unreachable
           "logf ForceKubeProxySet (world_listed (env_probes all_unreachable))"
           False "Errorf []"
           "snd (probeProxy (env_probes all_unreachable) ?forced_probing node_A
              (logf ForceKubeProxySet (world_listed (env_probes all_unreachable))))"]
      p [of all_unreachable ?forced_probing
           "logf ForceKubeProxySet (world_listed (env_probes all_unreachable))"] p3
    by simp
  have r4: "ensureNodeSource (env_probes (resets ?dsum)) cfg0 world_empty =
      Some ((cfg_probing, Some (Errorf ''connection reset by peer'')),
            snd (probeDirect (env_probes (resets ?dsum)) cfg_probing ''10.0.0.1'' 10250
                   (world_listed (env_probes (resets ?dsum)))))"
    using ensureNodeSource_outcomes [OF listing addr config allow,
        of "resets ?dsum"
           "snd (probeDirect (env_probes (resets ?dsum)) cfg_probing ''10.0.0.1'' 10250
                  (world_listed (env_probes (resets ?dsum))))"
           False "Errorf ''connection reset by peer''" world_empty]
      d [of "resets ?dsum"] d4
    by simp
  have r5: "ensureNodeSource (env_probes proxy_times_out) cfg0 world_empty =
      Some ((cfg_probing, Some (Errorf ''dial tcp 10.96.0.1:443: i/o timeout'')),
            snd (probeProxy (env_probes proxy_times_out) cfg_probing node_A
              (snd (probeDirect (env_probes proxy_times_out) cfg_probing ''10.0.0.1'' 10250
                 (world_listed (env_probes proxy_times_out))))))"
    using ensureNodeSource_outcomes [OF listing addr config allow,
        of proxy_times_out
           "snd (probeDirect (env_probes proxy_times_out) cfg_probing ''10.0.0.1'' 10250
                  (world_listed (env_probes proxy_times_out)))"
           False "Errorf ''dial tcp 10.96.0.1:443: i/o timeout''"
           "snd (probeProxy (env_probes proxy_times_out) cfg_probing node_A
              (snd (probeDirect (env_probes proxy_times_out) cfg_probing ''10.0.0.1'' 10250
                 (world_listed (env_probes proxy_times_out)))))"]
      d [of proxy_times_out] d5
      p [of proxy_times_out cfg_probing
           "snd (probeDirect (env_probes proxy_times_out) cfg_probing ''10.0.0.1'' 10250
                  (world_listed (env_probes proxy_times_out)))"] p5
    by simp
  have m: "nodeRetrievalMethod cfg_probing = []" "RetrieveNodeSummaries cfg_probing"
    by (simp_all add: cfg_probing_def cfg0_def)
  show ?thesis
    unfolding r1 r2 r3 r4 r5
    by (simp add: c1 c3 m)
qed

subsection \<open>Further properties of the code\<close>

lemma getNodeCondition_from_hit:
  "getNodeCondition_from cs t i = (j, Some c) \<Longrightarrow> 0 \<le> i \<Longrightarrow> condType c = t \<and> 0 \<le> j"
  by (induction cs arbitrary: i) (auto split: if_splits)

text \<open>
  \<^verbatim>\<open>ensureNodeSource\<close> never panics: it indexes \<^verbatim>\<open>nodes[0]\<close> only after \<^verbatim>\<open>GetReadyNodes\<close>
  returned without error, and \<^verbatim>\<open>GetReadyNodes\<close> returns an error when it retains no node.
\<close>

theorem ensureNodeSource_never_panics:
  "ensureNodeSource e config w \<noteq> None"
proof -
  let ?cns = "NewClientsetNodeSource (Clientset config)"
  obtain r w1 where g: "GetReadyNodes e ?cns w = (r, w1)"
    by (cases "GetReadyNodes e ?cns w")
  have ne: "r \<noteq> Inr []"
    using GetReadyNodes_nonempty [of e ?cns w] g by simp
  show ?thesis
  proof (cases r)
    case (Inl err)
    then show ?thesis
      using g by (simp add: ensureNodeSource_def Let_def)
  next
    case (Inr nodes)
    with ne obtain firstNode rest where n: "nodes = firstNode # rest"
      by (cases nodes) auto
    let ?config = "config\<lparr>NodeClient :=
        NewClient nodeHTTPClient True (BearerToken config) (CollectionRetryLimit config)\<rparr>"
    obtain allow w2 where a: "allowDirectConnect ?config (firstNode # rest) w1 = (allow, w2)"
      by (cases "allowDirectConnect ?config (firstNode # rest) w1")
    show ?thesis
    proof (cases "NodeAddress ?cns firstNode")
      case (Inl err)
      then show ?thesis
        using g Inr n by (simp add: ensureNodeSource_def Let_def)
    next
      case addr: (Inr ip)
      obtain i p where ip: "ip = (i, p)"
        by (cases ip)
      obtain s err w3 where d: "probeDirect e ?config i p w2 = ((s, err), w3)"
        by (cases "probeDirect e ?config i p w2") auto
      show ?thesis
        using g Inr n addr ip a d
        by (cases allow; cases err) (simp_all add: ensureNodeSource_def Let_def del: split_paired_Ex)
    qed
  qed
qed

text \<open>
  What \<^verbatim>\<open>GetReadyNodes\<close> returns: the error of the listing, or the nodes of the listing that
  have a condition of type \<^verbatim>\<open>Ready\<close>, in the order of the listing, or the error "there were
  0 nodes in a ready state" when there is none. Every node whose \<^verbatim>\<open>Ready\<close> condition is
  true has such a condition, so it is retained.
\<close>

theorem GetReadyNodes_retains_Ready_typed:
  "fst (GetReadyNodes e cns w) =
     (case list_nodes e (calls w) (ListCall (clientSet cns)) of
        Inl err \<Rightarrow> Inl err
      | Inr items \<Rightarrow>
          if filter retained items = [] then Inl (Errorf ''there were 0 nodes in a ready state'')
          else Inr (filter retained items)) \<and>
   (readyConditionTrue n \<longrightarrow> retained n)"
proof
  show "fst (GetReadyNodes e cns w) =
     (case list_nodes e (calls w) (ListCall (clientSet cns)) of
        Inl err \<Rightarrow> Inl err
      | Inr items \<Rightarrow>
          if filter retained items = [] then Inl (Errorf ''there were 0 nodes in a ready state'')
          else Inr (filter retained items))"
    by (rule GetReadyNodes_result)
  show "readyConditionTrue n \<longrightarrow> retained n"
  proof
    assume a: "readyConditionTrue n"
    obtain i nc where g: "getNodeCondition (Some (Status n)) NodeReady = (i, nc)"
      by (cases "getNodeCondition (Some (Status n)) NodeReady")
    from a g obtain c where nc: "nc = Some c"
      by (cases nc) (auto simp: readyConditionTrue_def)
    have "0 \<le> (0::int)" by simp
    from getNodeCondition_from_found [OF this, of "Conditions (Status n)" NodeReady i nc] g nc
    have "(0 \<le> i \<and> condType c = NodeReady) = retained n"
      by (simp add: getNodeCondition_def retained_def)
    moreover have "condType c = NodeReady \<and> 0 \<le> i"
      using g nc getNodeCondition_from_hit [of "Conditions (Status n)" NodeReady 0 i c]
      by (simp add: getNodeCondition_def)
    ultimately show "retained n" by simp
  qed
qed

theorem GetReadyNodes_retains_Ready_typed_witness:
  "fst (GetReadyNodes (env_listing (Inr [node_U, node_A, node_B])) cns0 world_empty) = Inr [node_A, node_B] \<and>
   readyConditionTrue node_A \<and> retained node_A \<and> \<not> retained node_U"
  using GetReadyNodes_retains_Ready_typed [of "env_listing (Inr [node_U, node_A, node_B])" cns0 world_empty node_A]
  by (simp add: retained_def readyConditionTrue_def getNodeCondition_def NodeReady_def ConditionTrue_def
      node_A_def node_B_def node_U_def env_listing_def cns0_def NewClientsetNodeSource_def world_empty_def)

text \<open>
  Outside direct mode the body of the loop is the proxy fetch alone: \<^verbatim>\<open>directNodeFetch\<close>,
  and with it the direct address builder, is not used, and an empty provider ID is
  recorded while the fetch goes on.
\<close>

theorem proxy_mode_fetches_by_proxy_only:
  "nodeRetrievalMethod config \<noteq> direct \<Longrightarrow>
     downloadNodeData_node e pfx config wd ns cr n failed w =
       downloadNodeData_proxy e config n (nodeFetchData_of pfx config wd cr n)
         (if ProviderID n = []
          then failed(Name n \<mapsto> Errorf (''Provider ID for node does not exist. '' @
                 ''If this condition persists it will cause inconsistent cluster allocation''))
          else failed) w"
  by (simp add: downloadNodeData_node_def Let_def)

theorem proxy_mode_fetches_by_proxy_only_witness:
  "nodeRetrievalMethod (cfg0\<lparr>nodeRetrievalMethod := proxy\<rparr>) \<noteq> direct \<and>
   calls (snd (downloadNodeData_node env_scenario ''stats'' (cfg0\<lparr>nodeRetrievalMethod := proxy\<rparr>) ''/tmp/wd''
                 cns0 containersRequestBody node_B Map.empty world0)) =
     [FetchCall (InClusterClient cfg0) ''GET'' ''stats-summary-node-b'' ''/tmp/wd''
        ''https://kube/api/v1/nodes/node-b/proxy/stats/summary'' None,
      FetchCall (InClusterClient cfg0) ''GET'' ''stats-cadvisor_metrics-node-b'' ''/tmp/wd''
        ''https://kube/api/v1/nodes/node-b/proxy/metrics/cadvisor'' None]"
proof -
  have h: "nodeRetrievalMethod (cfg0\<lparr>nodeRetrievalMethod := proxy\<rparr>) \<noteq> direct"
    by (simp add: proxy_def direct_def)
  show ?thesis
    using h proxy_mode_fetches_by_proxy_only [OF h, of env_scenario "''stats''" "''/tmp/wd''" cns0
        containersRequestBody node_B Map.empty world0]
    by (simp add: downloadNodeData_proxy_def proxyNodeFetch_def retrieveNodeData_def nodeFetchData_of_def
        GetRawEndPoint_def Available_def issue_def logf_def summary_def cadvisorMetrics_def container_def
        proxyEndpoints_def proxyAPI_statsSummary_def proxyAPI_mCAdvisor_def proxyAPI_statsContainer_def
        MethodGet_def MethodPost_def NodeStatsSummaryEndpoint_def NodeCadvisorEndpoint_def
        NodeContainerEndpoint_def env_scenario_def cfg0_def node_B_def world0_def apiClient_def
        containersRequestBody_def)
qed

text \<open>
  The mask is a set of keys: after \<^verbatim>\<open>SetAvailable\<close> the endpoint is available exactly when
  the flag was true, the other endpoints of the mask are as before, and so is every other
  mask of the store.
\<close>

theorem SetAvailable_sets_one_key:
  "Available m ep (SetAvailable m ep b w) = b \<and>
   (ep' \<noteq> ep \<longrightarrow> Available m ep' (SetAvailable m ep b w) = Available m ep' w) \<and>
   (m' \<noteq> m \<longrightarrow> masks (SetAvailable m ep b w) m' = masks w m')"
  by (simp add: Available_def SetAvailable_def)

theorem SetAvailable_sets_one_key_witness:
  "Available 1 NodeContainerEndpoint (SetAvailable 1 NodeContainerEndpoint True world0) \<and>
   \<not> Available 1 NodeCadvisorEndpoint (SetAvailable 1 NodeCadvisorEndpoint False world0) \<and>
   Available 1 NodeStatsSummaryEndpoint (SetAvailable 1 NodeCadvisorEndpoint False world0) \<and>
   masks (SetAvailable 1 NodeCadvisorEndpoint False world0) 0 =
     {NodeStatsSummaryEndpoint, NodeCadvisorEndpoint}"
  using SetAvailable_sets_one_key [of 1 NodeContainerEndpoint True world0 NodeCadvisorEndpoint 0]
    SetAvailable_sets_one_key [of 1 NodeCadvisorEndpoint False world0 NodeStatsSummaryEndpoint 0]
  by (simp add: Available_def world0_def NodeStatsSummaryEndpoint_def NodeCadvisorEndpoint_def
      NodeContainerEndpoint_def)

end
